theory Spec2Isabelle
  imports Main "HOL-Library.Word"
begin

unbundle bit_operations_syntax

section \<open>Strings and buffers\<close>

text \<open>
  A JavaScript string is a sequence of UTF-16 code units; a Node \<^verbatim>\<open>Buffer\<close> is a
  sequence of bytes. The ciphers of \<^verbatim>\<open>src/main/encryption.ts\<close> move between the two
  through the encodings \<^verbatim>\<open>'hex'\<close> and \<^verbatim>\<open>'utf8'\<close>, so both are modelled.
\<close>

type_synonym byte = "8 word"
type_synonym jsstring = "16 word list"

text \<open>An ASCII literal as a JavaScript string.\<close>

definition js :: "string \<Rightarrow> jsstring" where
  "js s = map (\<lambda>c. of_nat (of_char c)) s"

subsection \<open>The hex encoding\<close>

text \<open>
  \<^verbatim>\<open>buf.toString('hex')\<close> writes two lower-case digits per byte.
  \<^verbatim>\<open>Buffer.from(s, 'hex')\<close> reads pairs of digits of either case and stops at the
  first pair that is not two hex digits; a trailing single character is dropped.
\<close>

definition hexdigit :: "nat \<Rightarrow> 16 word" where
  "hexdigit n = (if n < 10 then of_nat (48 + n) else of_nat (87 + n))"

definition toHex :: "byte list \<Rightarrow> jsstring" where
  "toHex bs = concat (map (\<lambda>b. [hexdigit (unat b div 16), hexdigit (unat b mod 16)]) bs)"

definition unhex :: "16 word \<Rightarrow> nat option" where
  "unhex c =
     (let n = unat c in
      if 48 \<le> n \<and> n \<le> 57 then Some (n - 48)
      else if 97 \<le> n \<and> n \<le> 102 then Some (n - 87)
      else if 65 \<le> n \<and> n \<le> 70 then Some (n - 55)
      else None)"

fun fromHex :: "jsstring \<Rightarrow> byte list" where
  "fromHex (a # b # rest) =
     (case unhex a of
        None \<Rightarrow> []
      | Some x \<Rightarrow> (case unhex b of None \<Rightarrow> [] | Some y \<Rightarrow> of_nat (16 * x + y) # fromHex rest))"
| "fromHex _ = []"

subsection \<open>Splitting on a separator\<close>

text \<open>
  \<^verbatim>\<open>s.split(':')\<close>: the pieces between the separators, in order; a string with no
  separator is its own single piece, and the empty string gives one empty piece.
\<close>

fun splitFrom :: "16 word \<Rightarrow> jsstring \<Rightarrow> jsstring \<Rightarrow> jsstring list" where
  "splitFrom sep cur [] = [rev cur]"
| "splitFrom sep cur (c # cs) =
     (if c = sep then rev cur # splitFrom sep [] cs else splitFrom sep (c # cur) cs)"

definition split :: "16 word \<Rightarrow> jsstring \<Rightarrow> jsstring list" where
  "split sep s = splitFrom sep [] s"

definition COLON :: "16 word" where
  "COLON = 58"

subsection \<open>The UTF-8 encoding\<close>

text \<open>
  Encoding a string as \<^verbatim>\<open>'utf8'\<close> first reads its code units as code points: a high
  surrogate followed by a low surrogate is one supplementary code point, and a
  surrogate that is not part of such a pair is replaced by U+FFFD.
\<close>

definition isHigh :: "16 word \<Rightarrow> bool" where
  "isHigh u = (0xD800 \<le> unat u \<and> unat u \<le> 0xDBFF)"

definition isLow :: "16 word \<Rightarrow> bool" where
  "isLow u = (0xDC00 \<le> unat u \<and> unat u \<le> 0xDFFF)"

fun codepoints :: "jsstring \<Rightarrow> nat list" where
  "codepoints [] = []"
| "codepoints [u] = [if isHigh u \<or> isLow u then 0xFFFD else unat u]"
| "codepoints (u # v # rest) =
     (if isHigh u \<and> isLow v
        then (0x10000 + (unat u - 0xD800) * 0x400 + (unat v - 0xDC00)) # codepoints rest
      else (if isHigh u \<or> isLow u then 0xFFFD else unat u) # codepoints (v # rest))"

definition encode_cp :: "nat \<Rightarrow> nat list" where
  "encode_cp c =
     (if c < 0x80 then [c]
      else if c < 0x800 then [0xC0 + c div 64, 0x80 + c mod 64]
      else if c < 0x10000 then [0xE0 + c div 4096, 0x80 + (c div 64) mod 64, 0x80 + c mod 64]
      else [0xF0 + c div 262144, 0x80 + (c div 4096) mod 64, 0x80 + (c div 64) mod 64,
            0x80 + c mod 64])"

definition utf8_encode :: "jsstring \<Rightarrow> byte list" where
  "utf8_encode s = map of_nat (concat (map encode_cp (codepoints s)))"

text \<open>
  Decoding bytes as \<^verbatim>\<open>'utf8'\<close>: a well-formed sequence gives its code point; a byte
  that cannot start or continue a sequence ends the sequence read so far, which is
  replaced by one U+FFFD, and decoding goes on at that byte.
\<close>

definition cont :: "nat \<Rightarrow> bool" where
  "cont b = (0x80 \<le> b \<and> b \<le> 0xBF)"

definition second_lo :: "nat \<Rightarrow> nat" where
  "second_lo b0 = (if b0 = 0xE0 then 0xA0 else if b0 = 0xF0 then 0x90 else 0x80)"

definition second_hi :: "nat \<Rightarrow> nat" where
  "second_hi b0 = (if b0 = 0xED then 0x9F else if b0 = 0xF4 then 0x8F else 0xBF)"

definition decode_step :: "nat \<Rightarrow> nat list \<Rightarrow> nat \<times> nat" where
  "decode_step b0 bs =
     (if b0 < 0x80 then (b0, 1)
      else if 0xC2 \<le> b0 \<and> b0 \<le> 0xDF then
        (case bs of
           [] \<Rightarrow> (0xFFFD, 1)
         | b1 # _ \<Rightarrow> if cont b1 then ((b0 - 0xC0) * 64 + (b1 - 0x80), 2) else (0xFFFD, 1))
      else if 0xE0 \<le> b0 \<and> b0 \<le> 0xEF then
        (case bs of
           [] \<Rightarrow> (0xFFFD, 1)
         | b1 # r1 \<Rightarrow>
             if second_lo b0 \<le> b1 \<and> b1 \<le> second_hi b0 then
               (case r1 of
                  [] \<Rightarrow> (0xFFFD, 2)
                | b2 # _ \<Rightarrow>
                    if cont b2 then ((b0 - 0xE0) * 4096 + (b1 - 0x80) * 64 + (b2 - 0x80), 3)
                    else (0xFFFD, 2))
             else (0xFFFD, 1))
      else if 0xF0 \<le> b0 \<and> b0 \<le> 0xF4 then
        (case bs of
           [] \<Rightarrow> (0xFFFD, 1)
         | b1 # r1 \<Rightarrow>
             if second_lo b0 \<le> b1 \<and> b1 \<le> second_hi b0 then
               (case r1 of
                  [] \<Rightarrow> (0xFFFD, 2)
                | b2 # r2 \<Rightarrow>
                    if cont b2 then
                      (case r2 of
                         [] \<Rightarrow> (0xFFFD, 3)
                       | b3 # _ \<Rightarrow>
                           if cont b3 then
                             ((b0 - 0xF0) * 262144 + (b1 - 0x80) * 4096 + (b2 - 0x80) * 64
                                + (b3 - 0x80), 4)
                           else (0xFFFD, 3))
                    else (0xFFFD, 2))
             else (0xFFFD, 1))
      else (0xFFFD, 1))"

text \<open>
  \<open>decode_step b0 bs\<close> reads one code point from the bytes \<open>b0 # bs\<close> and says how many
  bytes it used (at least one).
\<close>

fun decode_cps :: "nat list \<Rightarrow> nat list" where
  "decode_cps [] = []"
| "decode_cps (b0 # bs) =
     (case decode_step b0 bs of (c, n) \<Rightarrow> c # decode_cps (drop (n - 1) bs))"

definition units_of_cp :: "nat \<Rightarrow> jsstring" where
  "units_of_cp c =
     (if c < 0x10000 then [of_nat c]
      else [of_nat (0xD800 + (c - 0x10000) div 0x400), of_nat (0xDC00 + (c - 0x10000) mod 0x400)])"

definition utf8_decode :: "byte list \<Rightarrow> jsstring" where
  "utf8_decode bs = concat (map units_of_cp (decode_cps (map unat bs)))"

text \<open>A Unicode scalar value: a code point that is not a surrogate.\<close>

definition scalar :: "nat \<Rightarrow> bool" where
  "scalar c = (c < 0x110000 \<and> \<not> (0xD800 \<le> c \<and> c \<le> 0xDFFF))"

text \<open>
  \<^verbatim>\<open>s.toWellFormed()\<close>: the string with every unpaired surrogate replaced by U+FFFD;
  \<^verbatim>\<open>s.isWellFormed()\<close> holds when there is none.
\<close>

fun toWellFormed :: "jsstring \<Rightarrow> jsstring" where
  "toWellFormed [] = []"
| "toWellFormed [u] = [if isHigh u \<or> isLow u then 0xFFFD else u]"
| "toWellFormed (u # v # rest) =
     (if isHigh u \<and> isLow v then u # v # toWellFormed rest
      else (if isHigh u \<or> isLow u then 0xFFFD else u) # toWellFormed (v # rest))"

definition isWellFormed :: "jsstring \<Rightarrow> bool" where
  "isWellFormed s = (toWellFormed s = s)"

section \<open>The ciphers: \<^verbatim>\<open>src/main/encryption.ts\<close>\<close>

subsection \<open>Errors\<close>

text \<open>
  The source throws plain \<^verbatim>\<open>Error\<close> objects, told apart by their messages; the first
  three constructors carry the names the specification gives them:
  \<^item> \<open>FormatError\<close>: \<^verbatim>\<open>'Invalid encrypted data format'\<close> and
    \<^verbatim>\<open>'Invalid encrypted file: too small'\<close>;
  \<^item> \<open>AuthenticationError\<close>: what \<^verbatim>\<open>decipher.final()\<close> throws when the tag does not
    verify;
  \<^item> \<open>NotAuthenticatedError\<close>: \<^verbatim>\<open>'User not authenticated for decryption'\<close> and
    \<^verbatim>\<open>'User not authenticated for encryption'\<close>.

  The others are what the library calls throw: \<^verbatim>\<open>createDecipheriv\<close> on an empty iv,
  \<^verbatim>\<open>setAuthTag\<close> on a tag whose length GCM does not allow, \<^verbatim>\<open>update(data, 'hex')\<close> on
  a string of odd length, the file system on a path that does not exist, the handlers
  on an unknown user (\<^verbatim>\<open>'Unauthorized'\<close>), the store on a row that violates a constraint
  of its table, and the cipher on a text that is undefined.
\<close>

datatype error =
    FormatError
  | AuthenticationError
  | NotAuthenticatedError
  | InvalidIV
  | InvalidAuthTagLength
  | InvalidHexLength
  | NoSuchFile
  | Unauthorized
  | ConstraintError
  | InvalidArgument

subsection \<open>Constants\<close>

definition KEY_LENGTH :: nat where
  "KEY_LENGTH = 32"

definition IV_LENGTH :: nat where
  "IV_LENGTH = 16"

definition SALT_LENGTH :: nat where
  "SALT_LENGTH = 64"

definition TAG_LENGTH :: nat where
  "TAG_LENGTH = 16"

definition ITERATIONS :: nat where
  "ITERATIONS = 100000"

subsection \<open>The primitives of Node's \<^verbatim>\<open>crypto\<close> module\<close>

text \<open>
  The hash function, the block cipher and the random generator are not code of this
  repository; the model takes them as parameters, and every theorem below holds for
  all of them.
  \<^item> \<open>pbkdf2_byte P password salt iterations i\<close> is byte \<open>i\<close> of the PBKDF2-HMAC-SHA512
    output: a shorter key is a prefix of a longer one.
  \<^item> \<open>gcm_keystream P key iv i\<close> is byte \<open>i\<close> of the counter-mode key stream of
    AES-256-GCM: the ciphertext is the plaintext XOR the key stream, byte by byte, and
    as long as the plaintext.
  \<^item> \<open>gcm_tag P key iv ciphertext\<close> is the 16-byte authentication tag (no additional
    authenticated data is ever set).
\<close>

record prims =
  pbkdf2_byte :: "byte list \<Rightarrow> byte list \<Rightarrow> nat \<Rightarrow> nat \<Rightarrow> byte"
  gcm_keystream :: "byte list \<Rightarrow> byte list \<Rightarrow> nat \<Rightarrow> byte"
  gcm_tag :: "byte list \<Rightarrow> byte list \<Rightarrow> byte list \<Rightarrow> 128 word"

text \<open>
  \<^verbatim>\<open>crypto.randomBytes(n)\<close> reads the next \<open>n\<close> bytes of a source of random bytes, which
  the model passes along explicitly.
\<close>

type_synonym entropy = "nat \<Rightarrow> byte"

definition randomBytes :: "nat \<Rightarrow> entropy \<Rightarrow> byte list \<times> entropy" where
  "randomBytes n rnd = (map rnd [0..<n], \<lambda>i. rnd (n + i))"

definition pbkdf2Sync :: "prims \<Rightarrow> byte list \<Rightarrow> byte list \<Rightarrow> nat \<Rightarrow> nat \<Rightarrow> byte list" where
  "pbkdf2Sync P password salt iterations keylen =
     map (pbkdf2_byte P password salt iterations) [0..<keylen]"

text \<open>The cipher object of \<^verbatim>\<open>createCipheriv('aes-256-gcm', key, iv)\<close>.\<close>

definition xor_stream :: "(nat \<Rightarrow> byte) \<Rightarrow> byte list \<Rightarrow> byte list" where
  "xor_stream ks bs = map (\<lambda>(i, b). b XOR ks i) (enumerate 0 bs)"

definition tag_bytes :: "128 word \<Rightarrow> byte list" where
  "tag_bytes t = map (\<lambda>i. ucast (drop_bit (8 * (15 - i)) t)) [0..<16]"

definition cipher_update :: "prims \<Rightarrow> byte list \<Rightarrow> byte list \<Rightarrow> byte list \<Rightarrow> byte list" where
  "cipher_update P key iv data = xor_stream (gcm_keystream P key iv) data"

definition getAuthTag :: "prims \<Rightarrow> byte list \<Rightarrow> byte list \<Rightarrow> byte list \<Rightarrow> byte list" where
  "getAuthTag P key iv ciphertext = tag_bytes (gcm_tag P key iv ciphertext)"

text \<open>
  The decipher object. \<^verbatim>\<open>createDecipheriv\<close> refuses an empty iv; \<^verbatim>\<open>setAuthTag\<close> accepts
  the tag lengths of NIST SP 800-38D (4, 8 and 12 to 16 bytes); \<^verbatim>\<open>final()\<close> compares as
  many bytes of the computed tag as the tag it was given has, and throws when they
  differ. The key is always the 32 bytes of \<open>deriveKey\<close>. Both callers use the
  plaintext of \<^verbatim>\<open>update\<close> only once \<^verbatim>\<open>final()\<close> has returned, so \<open>decipher_final\<close>
  gives the plaintext of both calls.
\<close>

definition createDecipheriv :: "byte list \<Rightarrow> byte list \<Rightarrow> error + unit" where
  "createDecipheriv key iv = (if iv = [] then Inl InvalidIV else Inr ())"

definition validTagLength :: "nat \<Rightarrow> bool" where
  "validTagLength n = (n = 4 \<or> n = 8 \<or> (12 \<le> n \<and> n \<le> 16))"

definition setAuthTag :: "byte list \<Rightarrow> error + unit" where
  "setAuthTag authTag = (if validTagLength (length authTag) then Inr () else Inl InvalidAuthTagLength)"

definition decipher_final ::
  "prims \<Rightarrow> byte list \<Rightarrow> byte list \<Rightarrow> byte list \<Rightarrow> byte list \<Rightarrow> error + byte list" where
  "decipher_final P key iv authTag ciphertext =
     (if take (length authTag) (getAuthTag P key iv ciphertext) = authTag
        then Inr (xor_stream (gcm_keystream P key iv) ciphertext)
      else Inl AuthenticationError)"

subsection \<open>Key derivation and password hashing\<close>

definition deriveKey :: "prims \<Rightarrow> jsstring \<Rightarrow> byte list \<Rightarrow> byte list" where
  "deriveKey P password salt = pbkdf2Sync P (utf8_encode password) salt ITERATIONS KEY_LENGTH"

definition generateSalt :: "entropy \<Rightarrow> byte list \<times> entropy" where
  "generateSalt rnd = randomBytes SALT_LENGTH rnd"

definition hashPassword :: "prims \<Rightarrow> entropy \<Rightarrow> jsstring \<Rightarrow> jsstring \<times> entropy" where
  "hashPassword P rnd password =
     (case randomBytes 16 rnd of
        (saltBytes, rnd') \<Rightarrow>
          let salt = toHex saltBytes;
              hash = toHex (pbkdf2Sync P (utf8_encode password) (utf8_encode salt) ITERATIONS 64)
          in (salt @ [COLON] @ hash, rnd'))"

text \<open>
  \<^verbatim>\<open>const [salt, hash] = hashedPassword.split(':')\<close> takes the first two pieces and
  ignores the others; a missing piece is \<^verbatim>\<open>undefined\<close>. An undefined salt makes
  \<^verbatim>\<open>pbkdf2Sync\<close> throw (\<open>split\<close> never returns no piece at all, so this cannot
  happen), and an undefined hash is equal to no string.
\<close>

definition verifyPassword :: "prims \<Rightarrow> jsstring \<Rightarrow> jsstring \<Rightarrow> bool" where
  "verifyPassword P password hashedPassword =
     (case split COLON hashedPassword of
        salt # hash # _ \<Rightarrow>
          hash = toHex (pbkdf2Sync P (utf8_encode password) (utf8_encode salt) ITERATIONS 64)
      | _ \<Rightarrow> False)"

subsection \<open>Text\<close>

definition encryptText :: "prims \<Rightarrow> entropy \<Rightarrow> jsstring \<Rightarrow> jsstring \<Rightarrow> jsstring \<times> entropy" where
  "encryptText P rnd text password =
     (case generateSalt rnd of
        (salt, rnd1) \<Rightarrow>
          (case randomBytes IV_LENGTH rnd1 of
             (iv, rnd2) \<Rightarrow>
               let key = deriveKey P password salt;
                   ciphertext = cipher_update P key iv (utf8_encode text);
                   encrypted = toHex ciphertext;
                   authTag = getAuthTag P key iv ciphertext
               in (toHex salt @ [COLON] @ toHex iv @ [COLON] @ toHex authTag @ [COLON] @ encrypted,
                   rnd2)))"

definition decryptText :: "prims \<Rightarrow> jsstring \<Rightarrow> jsstring \<Rightarrow> error + jsstring" where
  "decryptText P encryptedData password =
     (case split COLON encryptedData of
        [saltHex, ivHex, authTagHex, encrypted] \<Rightarrow>
          let salt = fromHex saltHex;
              iv = fromHex ivHex;
              authTag = fromHex authTagHex;
              key = deriveKey P password salt
          in (case createDecipheriv key iv of
                Inl e \<Rightarrow> Inl e
              | Inr _ \<Rightarrow>
                  (case setAuthTag authTag of
                     Inl e \<Rightarrow> Inl e
                   | Inr _ \<Rightarrow>
                       if odd (length encrypted) then Inl InvalidHexLength
                       else (case decipher_final P key iv authTag (fromHex encrypted) of
                               Inl e \<Rightarrow> Inl e
                             | Inr decrypted \<Rightarrow> Inr (utf8_decode decrypted))))
      | _ \<Rightarrow> Inl FormatError)"

text \<open>
  The format of a blob, \<^verbatim>\<open>salt:iv:authTag:encryptedData\<close>: \<open>makeBlob\<close> writes the four
  fields as \<open>encryptText\<close> does, and \<open>blobFields\<close> reads them as \<open>decryptText\<close> does.
\<close>

definition makeBlob :: "byte list \<Rightarrow> byte list \<Rightarrow> byte list \<Rightarrow> byte list \<Rightarrow> jsstring" where
  "makeBlob salt iv authTag ciphertext =
     toHex salt @ [COLON] @ toHex iv @ [COLON] @ toHex authTag @ [COLON] @ toHex ciphertext"

definition blobFields :: "jsstring \<Rightarrow> (byte list \<times> byte list \<times> byte list \<times> byte list) option" where
  "blobFields encryptedData =
     (case split COLON encryptedData of
        [saltHex, ivHex, authTagHex, encrypted] \<Rightarrow>
          Some (fromHex saltHex, fromHex ivHex, fromHex authTagHex, fromHex encrypted)
      | _ \<Rightarrow> None)"

text \<open>
  Flipping the bits \<open>m\<close> of byte \<open>i\<close> of a buffer, and a blob with a byte of its tag
  flipped.
\<close>

definition flipByte :: "nat \<Rightarrow> byte \<Rightarrow> byte list \<Rightarrow> byte list" where
  "flipByte i m bs = bs[i := bs ! i XOR m]"

definition tamperTag :: "nat \<Rightarrow> byte \<Rightarrow> jsstring \<Rightarrow> jsstring" where
  "tamperTag i m encryptedData =
     (case blobFields encryptedData of
        None \<Rightarrow> encryptedData
      | Some (salt, iv, authTag, ciphertext) \<Rightarrow> makeBlob salt iv (flipByte i m authTag) ciphertext)"

subsection \<open>Files\<close>

text \<open>
  The file system is a map from paths to contents. \<^verbatim>\<open>buf.subarray(start, end)\<close> is the
  slice from \<open>start\<close> up to, not including, \<open>end\<close>.
\<close>

type_synonym filesystem = "jsstring \<rightharpoonup> byte list"

definition subarray :: "nat \<Rightarrow> nat \<Rightarrow> 'a list \<Rightarrow> 'a list" where
  "subarray start end xs = take (end - start) (drop start xs)"

text \<open>
  \<open>encryptFile\<close> writes the salt and the iv, pipes the source through the cipher into
  the destination, and appends the tag when the source has ended. The model reads the
  streams as the sequence of bytes they deliver in order: the destination holds the
  salt, the iv, the whole ciphertext and then the tag. When the source cannot be
  opened the promise is rejected, and the destination, already created, holds the
  salt and the iv. The source and the destination are different files (the callers pass
  \<^verbatim>\<open>result.path\<close> and \<^verbatim>\<open>result.path + '.enc'\<close>).
\<close>

definition encryptFile ::
  "prims \<Rightarrow> entropy \<Rightarrow> filesystem \<Rightarrow> jsstring \<Rightarrow> jsstring \<Rightarrow> jsstring
    \<Rightarrow> (error + unit) \<times> filesystem \<times> entropy" where
  "encryptFile P rnd fs inputPath outputPath password =
     (case generateSalt rnd of
        (salt, rnd1) \<Rightarrow>
          (case randomBytes IV_LENGTH rnd1 of
             (iv, rnd2) \<Rightarrow>
               let key = deriveKey P password salt in
               (case fs inputPath of
                  None \<Rightarrow> (Inl NoSuchFile, fs(outputPath \<mapsto> salt @ iv), rnd2)
                | Some input \<Rightarrow>
                    let ciphertext = cipher_update P key iv input;
                        authTag = getAuthTag P key iv ciphertext
                    in (Inr (), fs(outputPath \<mapsto> salt @ iv @ ciphertext @ authTag), rnd2))))"

definition decryptFile ::
  "prims \<Rightarrow> filesystem \<Rightarrow> jsstring \<Rightarrow> jsstring \<Rightarrow> jsstring \<Rightarrow> (error + unit) \<times> filesystem" where
  "decryptFile P fs inputPath outputPath password =
     (case fs inputPath of
        None \<Rightarrow> (Inl NoSuchFile, fs)
      | Some encryptedData \<Rightarrow>
          if length encryptedData < SALT_LENGTH + IV_LENGTH + TAG_LENGTH then (Inl FormatError, fs)
          else
            let salt = subarray 0 SALT_LENGTH encryptedData;
                iv = subarray SALT_LENGTH (SALT_LENGTH + IV_LENGTH) encryptedData;
                authTag = subarray (length encryptedData - TAG_LENGTH) (length encryptedData)
                            encryptedData;
                ciphertext = subarray (SALT_LENGTH + IV_LENGTH) (length encryptedData - TAG_LENGTH)
                               encryptedData;
                key = deriveKey P password salt
            in (case createDecipheriv key iv of
                  Inl e \<Rightarrow> (Inl e, fs)
                | Inr _ \<Rightarrow>
                    (case setAuthTag authTag of
                       Inl e \<Rightarrow> (Inl e, fs)
                     | Inr _ \<Rightarrow>
                         (case decipher_final P key iv authTag ciphertext of
                            Inl e \<Rightarrow> (Inl e, fs)
                          | Inr decrypted \<Rightarrow> (Inr (), fs(outputPath \<mapsto> decrypted))))))"

subsection \<open>The session keys\<close>

type_synonym keystore = "jsstring \<rightharpoonup> jsstring"

definition setUserEncryptionKey :: "keystore \<Rightarrow> jsstring \<Rightarrow> jsstring \<Rightarrow> keystore" where
  "setUserEncryptionKey userKeys userId password = userKeys(userId \<mapsto> password)"

definition getUserEncryptionKey :: "keystore \<Rightarrow> jsstring \<Rightarrow> jsstring option" where
  "getUserEncryptionKey userKeys userId = userKeys userId"

definition clearUserEncryptionKey :: "keystore \<Rightarrow> jsstring \<Rightarrow> keystore" where
  "clearUserEncryptionKey userKeys userId = userKeys(userId := None)"

definition clearAllEncryptionKeys :: "keystore \<Rightarrow> keystore" where
  "clearAllEncryptionKeys userKeys = Map.empty"

subsection \<open>A concrete instance\<close>

text \<open>
  Small stand-ins for the primitives and for the random source, on which the model
  can be run.
\<close>

definition examplePrims :: prims where
  "examplePrims =
     \<lparr> pbkdf2_byte = (\<lambda>password salt iterations i. sum_list password + of_nat i),
       gcm_keystream = (\<lambda>key iv i. hd key + of_nat i),
       gcm_tag = (\<lambda>key iv ciphertext. ucast (hd key) * 256 + ucast (sum_list ciphertext)) \<rparr>"

definition exampleEntropy :: entropy where
  "exampleEntropy i = of_nat (7 * i + 3)"

section \<open>The record store: \<^verbatim>\<open>src/storage/database.ts\<close>\<close>

text \<open>
  The tables \<^verbatim>\<open>users\<close>, \<^verbatim>\<open>diary_entries\<close> and \<^verbatim>\<open>files\<close> as lists of rows, in the order
  of insertion. The \<^verbatim>\<open>metadata\<close> column holds a JSON text; the model keeps the object
  it encodes. The column \<^verbatim>\<open>encrypted_content\<close> is never written and is left out.
  Identifiers (\<^verbatim>\<open>crypto.randomUUID()\<close>) and the time (\<^verbatim>\<open>new Date().toISOString()\<close>) are
  inputs of the operations that read them.
\<close>

record User =
  user_id :: jsstring
  user_email :: jsstring
  user_password_hash :: jsstring
  user_name :: "jsstring option"
  user_created_at :: jsstring

record DiaryEntry =
  entry_id :: jsstring
  entry_title :: jsstring
  entry_content :: jsstring
  entry_type :: jsstring
  entry_entryMode :: "jsstring option"
  entry_linkedItemId :: "jsstring option"
  entry_createdAt :: jsstring
  entry_updatedAt :: jsstring
  entry_userId :: jsstring

record Metadata =
  meta_title :: "jsstring option"
  meta_uploadedAt :: "jsstring option"
  meta_description :: "jsstring option"

record FileItem =
  file_id :: jsstring
  file_userId :: jsstring
  file_name :: jsstring
  file_path :: jsstring
  file_type :: jsstring
  file_createdAt :: jsstring
  file_metadata :: Metadata

record database =
  users :: "User list"
  diary_entries :: "DiaryEntry list"
  files :: "FileItem list"

text \<open>
  \<^verbatim>\<open>x || y\<close> on optional strings: \<open>x\<close> unless it is undefined, null or empty.
\<close>

definition orElse :: "jsstring option \<Rightarrow> jsstring option \<Rightarrow> jsstring option" where
  "orElse x y = (case x of None \<Rightarrow> y | Some s \<Rightarrow> if s = [] then y else Some s)"

text \<open>The \<^verbatim>\<open>CHECK\<close> constraints of the columns \<^verbatim>\<open>type\<close> and \<^verbatim>\<open>entry_mode\<close>.\<close>

definition diary_types :: "jsstring list" where
  "diary_types = [js ''text'', js ''audio'']"

definition entry_modes :: "jsstring list" where
  "entry_modes = [js ''standalone'', js ''linked'']"

definition file_types :: "jsstring list" where
  "file_types =
     [js ''photo'', js ''video'', js ''audio'', js ''pdf'', js ''txt'', js ''docx'',
      js ''spreadsheet'']"

subsection \<open>Users\<close>

definition createUser ::
  "database \<Rightarrow> jsstring \<Rightarrow> jsstring \<Rightarrow> jsstring \<Rightarrow> jsstring \<Rightarrow> jsstring option
    \<Rightarrow> error + jsstring \<times> database" where
  "createUser db id' createdAt email passwordHash name =
     (if id' \<in> set (map user_id (users db)) \<or> email \<in> set (map user_email (users db))
        then Inl ConstraintError
      else Inr (id', db\<lparr>users := users db @
             [\<lparr>user_id = id', user_email = email, user_password_hash = passwordHash,
               user_name = orElse name None, user_created_at = createdAt\<rparr>]\<rparr>))"

definition getUserByEmail :: "database \<Rightarrow> jsstring \<Rightarrow> User option" where
  "getUserByEmail db email = find (\<lambda>u. user_email u = email) (users db)"

definition getUserById :: "database \<Rightarrow> jsstring \<Rightarrow> User option" where
  "getUserById db id' = find (\<lambda>u. user_id u = id') (users db)"

subsection \<open>Diary entries\<close>

text \<open>
  \<^verbatim>\<open>ORDER BY created_at DESC\<close> compares the texts byte by byte; rows with equal keys
  come in no promised order (the model keeps them in the order of the table).
\<close>

fun bytes_less :: "byte list \<Rightarrow> byte list \<Rightarrow> bool" where
  "bytes_less [] [] = False"
| "bytes_less [] (y # ys) = True"
| "bytes_less (x # xs) [] = False"
| "bytes_less (x # xs) (y # ys) = (x < y \<or> (x = y \<and> bytes_less xs ys))"

fun insertDesc :: "('a \<Rightarrow> jsstring) \<Rightarrow> 'a \<Rightarrow> 'a list \<Rightarrow> 'a list" where
  "insertDesc k r [] = [r]"
| "insertDesc k r (x # xs) =
     (if bytes_less (utf8_encode (k x)) (utf8_encode (k r)) then r # x # xs
      else x # insertDesc k r xs)"

definition orderByDesc :: "('a \<Rightarrow> jsstring) \<Rightarrow> 'a list \<Rightarrow> 'a list" where
  "orderByDesc k rows = foldr (insertDesc k) rows []"

definition saveDiaryEntry ::
  "database \<Rightarrow> jsstring \<Rightarrow> DiaryEntry \<Rightarrow> error + jsstring \<times> database" where
  "saveDiaryEntry db id' entry =
     (if id' \<in> set (map entry_id (diary_entries db))
         \<or> entry_type entry \<notin> set diary_types
         \<or> (case entry_entryMode entry of None \<Rightarrow> True | Some m \<Rightarrow> m \<notin> set entry_modes)
        then Inl ConstraintError
      else Inr (id', db\<lparr>diary_entries := diary_entries db @
             [entry\<lparr>entry_id := id',
                    entry_linkedItemId := orElse (entry_linkedItemId entry) None\<rparr>]\<rparr>))"

definition getDiaryEntries :: "database \<Rightarrow> jsstring \<Rightarrow> DiaryEntry list" where
  "getDiaryEntries db userId =
     map (\<lambda>entry. entry\<lparr>entry_entryMode := orElse (entry_entryMode entry) (Some (js ''standalone'')),
                          entry_linkedItemId := orElse (entry_linkedItemId entry) None\<rparr>)
       (orderByDesc entry_createdAt (filter (\<lambda>entry. entry_userId entry = userId) (diary_entries db)))"

text \<open>
  The fields of an update: \<^verbatim>\<open>{title, content, entryMode?, linkedItemId?, createdAt?}\<close>.
\<close>

record DiaryUpdate =
  upd_title :: jsstring
  upd_content :: jsstring
  upd_entryMode :: "jsstring option"
  upd_linkedItemId :: "jsstring option"
  upd_createdAt :: "jsstring option"

definition updateDiaryEntry ::
  "database \<Rightarrow> jsstring \<Rightarrow> jsstring \<Rightarrow> DiaryUpdate \<Rightarrow> error + database" where
  "updateDiaryEntry db updatedAt id' entry =
     (let mode = orElse (upd_entryMode entry) (Some (js ''standalone''));
          created = orElse (upd_createdAt entry) None
      in if (\<exists>row \<in> set (diary_entries db). entry_id row = id')
            \<and> (case mode of None \<Rightarrow> True | Some m \<Rightarrow> m \<notin> set entry_modes)
           then Inl ConstraintError
         else Inr (db\<lparr>diary_entries :=
                map (\<lambda>row. if entry_id row = id'
                       then row\<lparr>entry_title := upd_title entry,
                                entry_content := upd_content entry,
                                entry_entryMode := mode,
                                entry_linkedItemId := orElse (upd_linkedItemId entry) None,
                                entry_createdAt :=
                                  (case created of None \<Rightarrow> entry_createdAt row | Some c \<Rightarrow> c),
                                entry_updatedAt := updatedAt\<rparr>
                       else row)
                  (diary_entries db)\<rparr>))"

definition deleteDiaryEntry :: "database \<Rightarrow> jsstring \<Rightarrow> database" where
  "deleteDiaryEntry db id' =
     db\<lparr>diary_entries := filter (\<lambda>row. entry_id row \<noteq> id') (diary_entries db)\<rparr>"

subsection \<open>File records\<close>

definition saveFileItem ::
  "database \<Rightarrow> jsstring \<Rightarrow> jsstring \<Rightarrow> FileItem \<Rightarrow> error + jsstring \<times> database" where
  "saveFileItem db id' now item =
     (let metadata = (file_metadata item)\<lparr>meta_uploadedAt := Some now\<rparr>
      in if id' \<in> set (map file_id (files db)) \<or> file_type item \<notin> set file_types
           then Inl ConstraintError
         else Inr (id', db\<lparr>files := files db @ [item\<lparr>file_id := id', file_metadata := metadata\<rparr>]\<rparr>))"

definition getFileItems :: "database \<Rightarrow> jsstring \<Rightarrow> FileItem list" where
  "getFileItems db userId =
     orderByDesc file_createdAt (filter (\<lambda>item. file_userId item = userId) (files db))"

definition deleteFileItem :: "database \<Rightarrow> jsstring \<Rightarrow> database" where
  "deleteFileItem db id' = db\<lparr>files := filter (\<lambda>item. file_id item \<noteq> id') (files db)\<rparr>"

text \<open>
  \<^verbatim>\<open>UPDATE files SET name = ?, metadata = ?\<close> with \<^verbatim>\<open>metadata.title\<close> for the name: the
  column is \<^verbatim>\<open>NOT NULL\<close>, so a metadata without title is refused.
\<close>

definition updateFileItem :: "database \<Rightarrow> jsstring \<Rightarrow> Metadata \<Rightarrow> error + database" where
  "updateFileItem db id' metadata =
     (case meta_title metadata of
        None \<Rightarrow>
          if (\<exists>item \<in> set (files db). file_id item = id') then Inl ConstraintError else Inr db
      | Some t \<Rightarrow>
          Inr (db\<lparr>files :=
            map (\<lambda>item. if file_id item = id'
                   then item\<lparr>file_name := t, file_metadata := metadata\<rparr> else item)
              (files db)\<rparr>))"

definition updateFileItemDate :: "database \<Rightarrow> jsstring \<Rightarrow> jsstring \<Rightarrow> database" where
  "updateFileItemDate db id' date =
     db\<lparr>files := map (\<lambda>item. if file_id item = id' then item\<lparr>file_createdAt := date\<rparr> else item)
                    (files db)\<rparr>"

text \<open>The deprecated names for media items.\<close>

definition saveMediaItem ::
  "database \<Rightarrow> jsstring \<Rightarrow> jsstring \<Rightarrow> FileItem \<Rightarrow> error + jsstring \<times> database" where
  "saveMediaItem db id' now item = saveFileItem db id' now item"

definition getMediaItems :: "database \<Rightarrow> jsstring \<Rightarrow> FileItem list" where
  "getMediaItems db userId = getFileItems db userId"

definition deleteMediaItem :: "database \<Rightarrow> jsstring \<Rightarrow> database" where
  "deleteMediaItem db id' = deleteFileItem db id'"

definition updateMediaItem :: "database \<Rightarrow> jsstring \<Rightarrow> Metadata \<Rightarrow> error + database" where
  "updateMediaItem db id' metadata = updateFileItem db id' metadata"

definition updateMediaItemDate :: "database \<Rightarrow> jsstring \<Rightarrow> jsstring \<Rightarrow> database" where
  "updateMediaItemDate db id' date = updateFileItemDate db id' date"

subsection \<open>The schema and its migration\<close>

text \<open>
  The migration inspects and rebuilds tables, so it is modelled on the store as SQLite
  sees it: a map from table names to tables, a table being its columns, its
  constraints and its rows (a row maps a column to its text, or to nothing for
  \<^verbatim>\<open>NULL\<close>). The statements are the ones \<open>migrateToFilesTable\<close> executes, each with the
  errors SQLite raises for it.
\<close>

datatype sqlite_error = TableExists | NoSuchTable | NoSuchColumn | ConstraintFailed

record sqltable =
  tbl_columns :: "string list"
  tbl_primary_key :: "string option"
  tbl_not_null :: "string list"
  tbl_check :: "(string \<times> jsstring list) list"
  tbl_rows :: "(string \<rightharpoonup> jsstring) list"

type_synonym sqlstore = "string \<rightharpoonup> sqltable"

definition files_schema :: sqltable where
  "files_schema =
     \<lparr>tbl_columns = [''id'', ''user_id'', ''name'', ''path'', ''type'', ''created_at'', ''metadata''],
      tbl_primary_key = Some ''id'',
      tbl_not_null = [''user_id'', ''name'', ''path'', ''type'', ''created_at''],
      tbl_check = [(''type'', file_types)],
      tbl_rows = []\<rparr>"

definition diary_entries_schema :: sqltable where
  "diary_entries_schema =
     \<lparr>tbl_columns = [''id'', ''user_id'', ''title'', ''content'', ''type'', ''entry_mode'',
                     ''linked_item_id'', ''created_at'', ''updated_at'', ''encrypted_content''],
      tbl_primary_key = Some ''id'',
      tbl_not_null = [''user_id'', ''title'', ''content'', ''type'', ''entry_mode'', ''created_at'',
                      ''updated_at''],
      tbl_check = [(''type'', diary_types), (''entry_mode'', entry_modes)],
      tbl_rows = []\<rparr>"

definition users_schema :: sqltable where
  "users_schema =
     \<lparr>tbl_columns = [''id'', ''email'', ''password_hash'', ''name'', ''created_at''],
      tbl_primary_key = Some ''id'',
      tbl_not_null = [''email'', ''password_hash'', ''created_at''],
      tbl_check = [],
      tbl_rows = []\<rparr>"

text \<open>
  A row satisfies the constraints of a table when its \<^verbatim>\<open>NOT NULL\<close> columns hold a text
  and each checked column holds one of the texts allowed (or \<^verbatim>\<open>NULL\<close>); the rows of a
  table have different primary keys, \<^verbatim>\<open>NULL\<close> keys apart.
\<close>

definition row_ok :: "sqltable \<Rightarrow> (string \<rightharpoonup> jsstring) \<Rightarrow> bool" where
  "row_ok t r =
     (list_all (\<lambda>c. r c \<noteq> None) (tbl_not_null t)
      \<and> list_all (\<lambda>(c, allowed). case r c of None \<Rightarrow> True | Some v \<Rightarrow> v \<in> set allowed)
          (tbl_check t))"

definition keys_ok :: "sqltable \<Rightarrow> (string \<rightharpoonup> jsstring) list \<Rightarrow> bool" where
  "keys_ok t rows =
     (case tbl_primary_key t of
        None \<Rightarrow> True
      | Some k \<Rightarrow> distinct (concat (map (\<lambda>r. case r k of None \<Rightarrow> [] | Some v \<Rightarrow> [v]) rows)))"

definition createTable :: "string \<Rightarrow> sqltable \<Rightarrow> sqlstore \<Rightarrow> sqlite_error + sqlstore" where
  "createTable name schema store =
     (if store name \<noteq> None then Inl TableExists else Inr (store(name \<mapsto> schema)))"

definition createTableIfNotExists :: "string \<Rightarrow> sqltable \<Rightarrow> sqlstore \<Rightarrow> sqlstore" where
  "createTableIfNotExists name schema store =
     (if store name \<noteq> None then store else store(name \<mapsto> schema))"

definition dropTable :: "string \<Rightarrow> sqlstore \<Rightarrow> sqlite_error + sqlstore" where
  "dropTable name store =
     (if store name = None then Inl NoSuchTable else Inr (store(name := None)))"

definition renameTable :: "string \<Rightarrow> string \<Rightarrow> sqlstore \<Rightarrow> sqlite_error + sqlstore" where
  "renameTable old new store =
     (case store old of
        None \<Rightarrow> Inl NoSuchTable
      | Some t \<Rightarrow>
          if store new \<noteq> None then Inl TableExists
          else Inr (store(old := None, new \<mapsto> t)))"

text \<open>
  \<^verbatim>\<open>INSERT INTO target (targetColumns) SELECT sourceColumns FROM source\<close>: all the rows
  are inserted, or none when one of them violates a constraint.
\<close>

definition insertSelect ::
  "string \<Rightarrow> string list \<Rightarrow> string \<Rightarrow> string list \<Rightarrow> sqlstore \<Rightarrow> sqlite_error + sqlstore" where
  "insertSelect target targetColumns source sourceColumns store =
     (case store target of
        None \<Rightarrow> Inl NoSuchTable
      | Some t \<Rightarrow>
          (case store source of
             None \<Rightarrow> Inl NoSuchTable
           | Some s \<Rightarrow>
               if \<not> list_all (\<lambda>c. c \<in> set (tbl_columns t)) targetColumns
                  \<or> \<not> list_all (\<lambda>c. c \<in> set (tbl_columns s)) sourceColumns
                 then Inl NoSuchColumn
               else
                 let selected =
                       map (\<lambda>r c. case map_of (zip targetColumns sourceColumns) c of
                                     None \<Rightarrow> None
                                   | Some c' \<Rightarrow> r c')
                         (tbl_rows s)
                 in if list_all (row_ok t) selected \<and> keys_ok t (tbl_rows t @ selected)
                      then Inr (store(target \<mapsto> t\<lparr>tbl_rows := tbl_rows t @ selected\<rparr>))
                    else Inl ConstraintFailed))"

text \<open>
  \<^verbatim>\<open>db.exec\<close> and the body of the \<^verbatim>\<open>try\<close> block run their statements in order and stop
  at the first that fails; what the earlier ones did stays done.
\<close>

fun exec_all ::
  "(sqlstore \<Rightarrow> sqlite_error + sqlstore) list \<Rightarrow> sqlstore \<Rightarrow> (sqlite_error \<times> sqlstore) + sqlstore" where
  "exec_all [] store = Inr store"
| "exec_all (statement # rest) store =
     (case statement store of
        Inl e \<Rightarrow> Inl (e, store)
      | Inr store' \<Rightarrow> exec_all rest store')"

definition onlyIf ::
  "bool \<Rightarrow> (sqlstore \<Rightarrow> sqlite_error + sqlstore) \<Rightarrow> sqlstore \<Rightarrow> sqlite_error + sqlstore" where
  "onlyIf b statement store = (if b then statement store else Inr store)"

definition diary_columns :: "string list" where
  "diary_columns =
     [''id'', ''user_id'', ''title'', ''content'', ''type'', ''entry_mode'', ''linked_item_id'',
      ''created_at'', ''updated_at'', ''encrypted_content'']"

text \<open>
  \<open>migrateToFilesTable\<close> catches every error and only logs it: it returns the error it
  caught, if any, and the store as the statements left it. \<^verbatim>\<open>PRAGMA table_info\<close> lists
  no column for a table that does not exist.
\<close>

definition migrateToFilesTable :: "sqlstore \<Rightarrow> sqlite_error option \<times> sqlstore" where
  "migrateToFilesTable store =
     (let hasMediaItems = (store ''media_items'' \<noteq> None);
          hasFileItems = (store ''file_items'' \<noteq> None);
          hasFiles = (store ''files'' \<noteq> None)
      in case exec_all
                [onlyIf ((hasMediaItems \<or> hasFileItems) \<and> \<not> hasFiles)
                   (createTable ''files'' files_schema),
                 onlyIf hasMediaItems
                   (insertSelect ''files''
                      [''id'', ''user_id'', ''name'', ''path'', ''type'', ''created_at'', ''metadata'']
                      ''media_items''
                      [''id'', ''user_id'', ''title'', ''path'', ''type'', ''created_at'', ''metadata'']),
                 onlyIf hasMediaItems (dropTable ''media_items''),
                 onlyIf hasFileItems
                   (insertSelect ''files''
                      [''id'', ''user_id'', ''name'', ''path'', ''type'', ''created_at'', ''metadata'']
                      ''file_items''
                      [''id'', ''user_id'', ''name'', ''path'', ''type'', ''created_at'', ''metadata'']),
                 onlyIf hasFileItems (dropTable ''file_items'')]
                store of
           Inl (e, store') \<Rightarrow> (Some e, store')
         | Inr store1 \<Rightarrow>
             let hasLinkedItemType =
                   (case store1 ''diary_entries'' of
                      None \<Rightarrow> False
                    | Some t \<Rightarrow> ''linked_item_type'' \<in> set (tbl_columns t))
             in if hasLinkedItemType
                  then (case exec_all
                               [createTable ''diary_entries_new'' diary_entries_schema,
                                insertSelect ''diary_entries_new'' diary_columns
                                  ''diary_entries'' diary_columns,
                                dropTable ''diary_entries'',
                                renameTable ''diary_entries_new'' ''diary_entries'']
                               store1 of
                          Inl (e, store') \<Rightarrow> (Some e, store')
                        | Inr store' \<Rightarrow> (None, store'))
                else (None, store1))"

text \<open>
  A store is migrated when it has the table \<^verbatim>\<open>files\<close>, has neither of the tables
  \<^verbatim>\<open>media_items\<close> and \<^verbatim>\<open>file_items\<close>, and its table \<^verbatim>\<open>diary_entries\<close> has no column
  \<^verbatim>\<open>linked_item_type\<close>.
\<close>

definition hasLinkedItemType :: "sqlstore \<Rightarrow> bool" where
  "hasLinkedItemType store =
     (case store ''diary_entries'' of
        None \<Rightarrow> False
      | Some t \<Rightarrow> ''linked_item_type'' \<in> set (tbl_columns t))"

definition migrated :: "sqlstore \<Rightarrow> bool" where
  "migrated store =
     (store ''files'' \<noteq> None \<and> store ''media_items'' = None \<and> store ''file_items'' = None
      \<and> \<not> hasLinkedItemType store)"

text \<open>
  \<open>createTables\<close>: the three \<^verbatim>\<open>CREATE TABLE IF NOT EXISTS\<close>, then the migration.
\<close>

definition createTables :: "sqlstore \<Rightarrow> sqlite_error option \<times> sqlstore" where
  "createTables store =
     migrateToFilesTable
       (createTableIfNotExists ''files'' files_schema
          (createTableIfNotExists ''diary_entries'' diary_entries_schema
             (createTableIfNotExists ''users'' users_schema store)))"

section \<open>The request handlers of the main process\<close>

text \<open>
  The state the handlers share: the session keys, the record store, the file system and
  the source of random bytes. A handler takes the state and returns its result, or the
  error it throws, with the new state.
\<close>

record appstate =
  st_keys :: keystore
  st_db :: database
  st_fs :: filesystem
  st_rnd :: entropy

text \<open>
  The messages of the handlers: \<^verbatim>\<open>'[Oshibka rasshifrovki]'\<close> and the others are Russian
  texts, given by their code units.
  \<^item> \<open>TITLE_PLACEHOLDER\<close>: "[decryption error]";
  \<^item> \<open>CONTENT_PLACEHOLDER\<close>: "[could not decrypt the content]";
  \<^item> \<open>USER_NOT_FOUND\<close>: "user not found";
  \<^item> \<open>WRONG_PASSWORD\<close>: "wrong password";
  \<^item> \<open>LOGIN_ERROR\<close>: "error while logging in";
  \<^item> \<open>USER_EXISTS\<close>: "a user with this email already exists";
  \<^item> \<open>REGISTRATION_ERROR\<close>: "error while registering".
\<close>

definition TITLE_PLACEHOLDER :: jsstring where
  "TITLE_PLACEHOLDER =
     [0x5B, 0x41E, 0x448, 0x438, 0x431, 0x43A, 0x430, 0x20, 0x440, 0x430, 0x441, 0x448, 0x438,
      0x444, 0x440, 0x43E, 0x432, 0x43A, 0x438, 0x5D]"

definition CONTENT_PLACEHOLDER :: jsstring where
  "CONTENT_PLACEHOLDER =
     [0x5B, 0x41D, 0x435, 0x20, 0x443, 0x434, 0x430, 0x43B, 0x43E, 0x441, 0x44C, 0x20, 0x440,
      0x430, 0x441, 0x448, 0x438, 0x444, 0x440, 0x43E, 0x432, 0x430, 0x442, 0x44C, 0x20, 0x441,
      0x43E, 0x434, 0x435, 0x440, 0x436, 0x438, 0x43C, 0x43E, 0x435, 0x5D]"

definition USER_NOT_FOUND :: jsstring where
  "USER_NOT_FOUND =
     [0x41F, 0x43E, 0x43B, 0x44C, 0x437, 0x43E, 0x432, 0x430, 0x442, 0x435, 0x43B, 0x44C, 0x20,
      0x43D, 0x435, 0x20, 0x43D, 0x430, 0x439, 0x434, 0x435, 0x43D]"

definition WRONG_PASSWORD :: jsstring where
  "WRONG_PASSWORD =
     [0x41D, 0x435, 0x432, 0x435, 0x440, 0x43D, 0x44B, 0x439, 0x20, 0x43F, 0x430, 0x440, 0x43E,
      0x43B, 0x44C]"

definition LOGIN_ERROR :: jsstring where
  "LOGIN_ERROR =
     [0x41E, 0x448, 0x438, 0x431, 0x43A, 0x430, 0x20, 0x43F, 0x440, 0x438, 0x20, 0x432, 0x445,
      0x43E, 0x434, 0x435, 0x20, 0x432, 0x20, 0x441, 0x438, 0x441, 0x442, 0x435, 0x43C, 0x443]"

definition USER_EXISTS :: jsstring where
  "USER_EXISTS =
     [0x41F, 0x43E, 0x43B, 0x44C, 0x437, 0x43E, 0x432, 0x430, 0x442, 0x435, 0x43B, 0x44C, 0x20,
      0x441, 0x20, 0x442, 0x430, 0x43A, 0x438, 0x43C, 0x20, 0x65, 0x6D, 0x61, 0x69, 0x6C, 0x20,
      0x443, 0x436, 0x435, 0x20, 0x441, 0x443, 0x449, 0x435, 0x441, 0x442, 0x432, 0x443, 0x435,
      0x442]"

definition REGISTRATION_ERROR :: jsstring where
  "REGISTRATION_ERROR =
     [0x41E, 0x448, 0x438, 0x431, 0x43A, 0x430, 0x20, 0x43F, 0x440, 0x438, 0x20, 0x440, 0x435,
      0x433, 0x438, 0x441, 0x442, 0x440, 0x430, 0x446, 0x438, 0x438]"

subsection \<open>Authentication\<close>

record AuthResponse =
  success :: bool
  token :: "jsstring option"
  error_message :: "jsstring option"

text \<open>
  \<^verbatim>\<open>auth:login\<close>. The \<^verbatim>\<open>catch\<close> branch, which answers \<open>LOGIN_ERROR\<close>, is taken when the
  store or \<^verbatim>\<open>verifyPassword\<close> throws; neither does on the typed values of the model.
\<close>

definition auth_login :: "prims \<Rightarrow> appstate \<Rightarrow> jsstring \<Rightarrow> jsstring \<Rightarrow> AuthResponse \<times> appstate" where
  "auth_login P st email password =
     (case getUserByEmail (st_db st) email of
        None \<Rightarrow> (\<lparr>success = False, token = None, error_message = Some USER_NOT_FOUND\<rparr>, st)
      | Some user \<Rightarrow>
          if \<not> verifyPassword P password (user_password_hash user)
            then (\<lparr>success = False, token = None, error_message = Some WRONG_PASSWORD\<rparr>, st)
          else (\<lparr>success = True, token = Some (user_id user), error_message = None\<rparr>,
                st\<lparr>st_keys := setUserEncryptionKey (st_keys st) (user_id user) password\<rparr>))"

definition auth_register ::
  "prims \<Rightarrow> appstate \<Rightarrow> jsstring \<Rightarrow> jsstring \<Rightarrow> jsstring \<Rightarrow> jsstring \<Rightarrow> jsstring option
    \<Rightarrow> AuthResponse \<times> appstate" where
  "auth_register P st uuid now email password name =
     (case getUserByEmail (st_db st) email of
        Some existingUser \<Rightarrow>
          (\<lparr>success = False, token = None, error_message = Some USER_EXISTS\<rparr>, st)
      | None \<Rightarrow>
          (case hashPassword P (st_rnd st) password of
             (passwordHash, rnd') \<Rightarrow>
               (case createUser (st_db st) uuid now email passwordHash name of
                  Inl e \<Rightarrow>
                    (\<lparr>success = False, token = None, error_message = Some REGISTRATION_ERROR\<rparr>,
                     st\<lparr>st_rnd := rnd'\<rparr>)
                | Inr (userId, db') \<Rightarrow>
                    (\<lparr>success = True, token = Some userId, error_message = None\<rparr>,
                     st\<lparr>st_db := db', st_rnd := rnd',
                        st_keys := setUserEncryptionKey (st_keys st) userId password\<rparr>))))"

text \<open>\<^verbatim>\<open>auth:logout\<close> clears the key \<^verbatim>\<open>if (userId)\<close>: not for the empty string.\<close>

definition auth_logout :: "appstate \<Rightarrow> jsstring \<Rightarrow> appstate" where
  "auth_logout st userId =
     (if userId \<noteq> [] then st\<lparr>st_keys := clearUserEncryptionKey (st_keys st) userId\<rparr> else st)"

subsection \<open>Diary\<close>

text \<open>
  Every handler that encrypts or decrypts starts with
  \<^verbatim>\<open>const userPassword = getUserEncryptionKey(userId); if (!userPassword) throw ...\<close>:
  it throws when no key is cached and also when the cached key is the empty string.
\<close>

definition diary_save ::
  "prims \<Rightarrow> appstate \<Rightarrow> jsstring \<Rightarrow> DiaryEntry \<Rightarrow> (error + jsstring) \<times> appstate" where
  "diary_save P st uuid entry =
     (case getUserEncryptionKey (st_keys st) (entry_userId entry) of
        None \<Rightarrow> (Inl NotAuthenticatedError, st)
      | Some userPassword \<Rightarrow>
          if userPassword = [] then (Inl NotAuthenticatedError, st)
          else
            (case encryptText P (st_rnd st) (entry_title entry) userPassword of
               (encryptedTitle, rnd1) \<Rightarrow>
                 (case encryptText P rnd1 (entry_content entry) userPassword of
                    (encryptedContent, rnd2) \<Rightarrow>
                      let encryptedEntry =
                            entry\<lparr>entry_title := encryptedTitle, entry_content := encryptedContent\<rparr>
                      in (case saveDiaryEntry (st_db st) uuid encryptedEntry of
                            Inl e \<Rightarrow> (Inl e, st\<lparr>st_rnd := rnd2\<rparr>)
                          | Inr (id', db') \<Rightarrow> (Inr id', st\<lparr>st_db := db', st_rnd := rnd2\<rparr>)))))"

definition decryptEntry :: "prims \<Rightarrow> jsstring \<Rightarrow> DiaryEntry \<Rightarrow> DiaryEntry" where
  "decryptEntry P userPassword entry =
     (case decryptText P (entry_title entry) userPassword of
        Inl e \<Rightarrow> entry\<lparr>entry_title := TITLE_PLACEHOLDER, entry_content := CONTENT_PLACEHOLDER\<rparr>
      | Inr t \<Rightarrow>
          (case decryptText P (entry_content entry) userPassword of
             Inl e \<Rightarrow> entry\<lparr>entry_title := TITLE_PLACEHOLDER, entry_content := CONTENT_PLACEHOLDER\<rparr>
           | Inr c \<Rightarrow> entry\<lparr>entry_title := t, entry_content := c\<rparr>))"

definition diary_getAll :: "prims \<Rightarrow> appstate \<Rightarrow> jsstring \<Rightarrow> error + DiaryEntry list" where
  "diary_getAll P st userId =
     (let entries = getDiaryEntries (st_db st) userId
      in case getUserEncryptionKey (st_keys st) userId of
           None \<Rightarrow> Inl NotAuthenticatedError
         | Some userPassword \<Rightarrow>
             if userPassword = [] then Inl NotAuthenticatedError
             else Inr (map (decryptEntry P userPassword) entries))"

text \<open>
  \<^verbatim>\<open>diary:update\<close> takes the new creation date from \<^verbatim>\<open>entry.customDate\<close>.
\<close>

record DiaryEdit =
  edit_title :: jsstring
  edit_content :: jsstring
  edit_entryMode :: "jsstring option"
  edit_linkedItemId :: "jsstring option"
  edit_customDate :: "jsstring option"

definition diary_update ::
  "prims \<Rightarrow> appstate \<Rightarrow> jsstring \<Rightarrow> jsstring \<Rightarrow> DiaryEdit \<Rightarrow> jsstring
    \<Rightarrow> (error + unit) \<times> appstate" where
  "diary_update P st now id' entry userId =
     (case getUserEncryptionKey (st_keys st) userId of
        None \<Rightarrow> (Inl NotAuthenticatedError, st)
      | Some userPassword \<Rightarrow>
          if userPassword = [] then (Inl NotAuthenticatedError, st)
          else
            (case encryptText P (st_rnd st) (edit_title entry) userPassword of
               (encryptedTitle, rnd1) \<Rightarrow>
                 (case encryptText P rnd1 (edit_content entry) userPassword of
                    (encryptedContent, rnd2) \<Rightarrow>
                      let encryptedEntry =
                            \<lparr>upd_title = encryptedTitle, upd_content = encryptedContent,
                             upd_entryMode = edit_entryMode entry,
                             upd_linkedItemId = edit_linkedItemId entry,
                             upd_createdAt = edit_customDate entry\<rparr>
                      in (case updateDiaryEntry (st_db st) now id' encryptedEntry of
                            Inl e \<Rightarrow> (Inl e, st\<lparr>st_rnd := rnd2\<rparr>)
                          | Inr db' \<Rightarrow> (Inr (), st\<lparr>st_db := db', st_rnd := rnd2\<rparr>)))))"

definition diary_delete :: "appstate \<Rightarrow> jsstring \<Rightarrow> appstate" where
  "diary_delete st id' = st\<lparr>st_db := deleteDiaryEntry (st_db st) id'\<rparr>"

subsection \<open>Media and files\<close>

text \<open>
  \<open>handleFileUpload\<close> (\<^verbatim>\<open>src/main/fileHandlers.ts\<close>) shows a dialog and copies the chosen
  file into the media directory. Its input here is what the user chose: nothing, or the
  record the function returns for the file together with the bytes it copies.
\<close>

record UploadResult =
  up_path :: jsstring
  up_name :: jsstring
  up_type :: jsstring
  up_title :: "jsstring option"

definition handleFileUpload ::
  "filesystem \<Rightarrow> (UploadResult \<times> byte list) option \<Rightarrow> UploadResult option \<times> filesystem" where
  "handleFileUpload fs choice =
     (case choice of
        None \<Rightarrow> (None, fs)
      | Some (result, bytes) \<Rightarrow> (Some result, fs(up_path result \<mapsto> bytes)))"

text \<open>\<^verbatim>\<open>result.metadata?.title || result.name\<close>\<close>

definition uploadTitle :: "UploadResult \<Rightarrow> jsstring" where
  "uploadTitle result =
     (case up_title result of None \<Rightarrow> up_name result
      | Some t \<Rightarrow> if t = [] then up_name result else t)"

definition media_upload ::
  "prims \<Rightarrow> appstate \<Rightarrow> bool \<Rightarrow> (UploadResult \<times> byte list) option \<Rightarrow> jsstring \<Rightarrow> jsstring
    \<Rightarrow> jsstring \<Rightarrow> jsstring \<Rightarrow> (error + FileItem option) \<times> appstate" where
  "media_upload P st hasWindow choice uuid now type userId =
     (case getUserById (st_db st) userId of
        None \<Rightarrow> (Inl Unauthorized, st)
      | Some user \<Rightarrow>
          (case getUserEncryptionKey (st_keys st) userId of
             None \<Rightarrow> (Inl NotAuthenticatedError, st)
           | Some userPassword \<Rightarrow>
               if userPassword = [] then (Inl NotAuthenticatedError, st)
               else if \<not> hasWindow then (Inr None, st)
               else
                 (case handleFileUpload (st_fs st) choice of
                    (None, fs0) \<Rightarrow> (Inr None, st\<lparr>st_fs := fs0\<rparr>)
                  | (Some result, fs0) \<Rightarrow>
                      let encryptedPath = up_path result @ js ''.enc'' in
                      (case encryptFile P (st_rnd st) fs0 (up_path result) encryptedPath userPassword of
                         (Inl e, fs1, rnd1) \<Rightarrow> (Inl e, st\<lparr>st_fs := fs1, st_rnd := rnd1\<rparr>)
                       | (Inr _, fs1, rnd1) \<Rightarrow>
                           let fs2 = fs1(up_path result := None);
                               title = uploadTitle result
                           in (case encryptText P rnd1 title userPassword of
                                 (encryptedTitle, rnd2) \<Rightarrow>
                                   let mediaItem =
                                         \<lparr>file_id = [], file_userId = user_id user,
                                          file_name = encryptedTitle, file_path = encryptedPath,
                                          file_type = type, file_createdAt = now,
                                          file_metadata =
                                            \<lparr>meta_title = Some encryptedTitle,
                                             meta_uploadedAt = Some now,
                                             meta_description = None\<rparr>\<rparr>;
                                       st' = st\<lparr>st_fs := fs2, st_rnd := rnd2\<rparr>
                                   in (case saveMediaItem (st_db st) uuid now mediaItem of
                                         Inl e \<Rightarrow> (Inl e, st')
                                       | Inr (id', db') \<Rightarrow>
                                           (Inr (Some (mediaItem
                                              \<lparr>file_id := id', file_name := title,
                                               file_metadata :=
                                                 \<lparr>meta_title = Some title,
                                                  meta_uploadedAt = Some now,
                                                  meta_description = None\<rparr>\<rparr>)),
                                            st'\<lparr>st_db := db'\<rparr>)))))))"

definition file_upload ::
  "prims \<Rightarrow> appstate \<Rightarrow> bool \<Rightarrow> (UploadResult \<times> byte list) option \<Rightarrow> jsstring \<Rightarrow> jsstring
    \<Rightarrow> jsstring \<Rightarrow> (error + FileItem option) \<times> appstate" where
  "file_upload P st hasWindow choice uuid now userId =
     (case getUserById (st_db st) userId of
        None \<Rightarrow> (Inl Unauthorized, st)
      | Some user \<Rightarrow>
          (case getUserEncryptionKey (st_keys st) userId of
             None \<Rightarrow> (Inl NotAuthenticatedError, st)
           | Some userPassword \<Rightarrow>
               if userPassword = [] then (Inl NotAuthenticatedError, st)
               else if \<not> hasWindow then (Inr None, st)
               else
                 (case handleFileUpload (st_fs st) choice of
                    (None, fs0) \<Rightarrow> (Inr None, st\<lparr>st_fs := fs0\<rparr>)
                  | (Some result, fs0) \<Rightarrow>
                      let encryptedPath = up_path result @ js ''.enc'' in
                      (case encryptFile P (st_rnd st) fs0 (up_path result) encryptedPath userPassword of
                         (Inl e, fs1, rnd1) \<Rightarrow> (Inl e, st\<lparr>st_fs := fs1, st_rnd := rnd1\<rparr>)
                       | (Inr _, fs1, rnd1) \<Rightarrow>
                           let fs2 = fs1(up_path result := None) in
                           (case encryptText P rnd1 (uploadTitle result) userPassword of
                              (encryptedTitle, rnd2) \<Rightarrow>
                                let fileItem =
                                      \<lparr>file_id = [], file_userId = user_id user,
                                       file_name = up_name result, file_path = encryptedPath,
                                       file_type = up_type result, file_createdAt = now,
                                       file_metadata =
                                         \<lparr>meta_title = Some encryptedTitle,
                                          meta_uploadedAt = Some now,
                                          meta_description = None\<rparr>\<rparr>;
                                    st' = st\<lparr>st_fs := fs2, st_rnd := rnd2\<rparr>
                                in (case saveFileItem (st_db st) uuid now fileItem of
                                      Inl e \<Rightarrow> (Inl e, st')
                                    | Inr (id', db') \<Rightarrow>
                                        (Inr (Some (fileItem
                                           \<lparr>file_id := id',
                                            file_metadata :=
                                              \<lparr>meta_title = Some (uploadTitle result),
                                               meta_uploadedAt = Some now,
                                               meta_description = None\<rparr>\<rparr>)),
                                         st'\<lparr>st_db := db'\<rparr>)))))))"

text \<open>
  The listing handlers decrypt \<^verbatim>\<open>metadata.title\<close> of each item. When that throws (no
  title, or \<open>decryptText\<close> fails) the item gets a metadata with the placeholder for
  title and the stored \<^verbatim>\<open>uploadedAt\<close>, and nothing else.
\<close>

definition decryptItem :: "prims \<Rightarrow> jsstring \<Rightarrow> FileItem \<Rightarrow> FileItem" where
  "decryptItem P userPassword item =
     (let failed = item\<lparr>file_metadata :=
                     \<lparr>meta_title = Some TITLE_PLACEHOLDER,
                      meta_uploadedAt = meta_uploadedAt (file_metadata item),
                      meta_description = None\<rparr>\<rparr>
      in case meta_title (file_metadata item) of
           None \<Rightarrow> failed
         | Some t \<Rightarrow>
             (case decryptText P t userPassword of
                Inl e \<Rightarrow> failed
              | Inr title \<Rightarrow> item\<lparr>file_metadata := (file_metadata item)\<lparr>meta_title := Some title\<rparr>\<rparr>))"

definition media_getAll :: "prims \<Rightarrow> appstate \<Rightarrow> jsstring \<Rightarrow> error + FileItem list" where
  "media_getAll P st userId =
     (let items = getMediaItems (st_db st) userId
      in case getUserEncryptionKey (st_keys st) userId of
           None \<Rightarrow> Inl NotAuthenticatedError
         | Some userPassword \<Rightarrow>
             if userPassword = [] then Inl NotAuthenticatedError
             else Inr (map (decryptItem P userPassword) items))"

definition file_getAll :: "prims \<Rightarrow> appstate \<Rightarrow> jsstring \<Rightarrow> error + FileItem list" where
  "file_getAll P st userId =
     (let items = getFileItems (st_db st) userId
      in case getUserEncryptionKey (st_keys st) userId of
           None \<Rightarrow> Inl NotAuthenticatedError
         | Some userPassword \<Rightarrow>
             if userPassword = [] then Inl NotAuthenticatedError
             else Inr (map (decryptItem P userPassword) items))"

definition media_delete :: "appstate \<Rightarrow> jsstring \<Rightarrow> appstate" where
  "media_delete st id' = st\<lparr>st_db := deleteMediaItem (st_db st) id'\<rparr>"

definition file_delete :: "appstate \<Rightarrow> jsstring \<Rightarrow> appstate" where
  "file_delete st id' = st\<lparr>st_db := deleteFileItem (st_db st) id'\<rparr>"

text \<open>
  \<^verbatim>\<open>file:open\<close> decrypts to \<open>tempPath\<close>, the path it builds in the temporary directory
  from the time and the name of the file, and opens it. The deletion of the temporary
  file, five minutes later, is not part of the model.
\<close>

definition file_open ::
  "prims \<Rightarrow> appstate \<Rightarrow> jsstring \<Rightarrow> jsstring \<Rightarrow> jsstring \<Rightarrow> (error + bool) \<times> appstate" where
  "file_open P st tempPath encryptedPath userId =
     (case getUserEncryptionKey (st_keys st) userId of
        None \<Rightarrow> (Inl NotAuthenticatedError, st)
      | Some userPassword \<Rightarrow>
          if userPassword = [] then (Inl NotAuthenticatedError, st)
          else
            (case decryptFile P (st_fs st) encryptedPath tempPath userPassword of
               (Inl e, fs') \<Rightarrow> (Inl e, st\<lparr>st_fs := fs'\<rparr>)
             | (Inr _, fs') \<Rightarrow> (Inr True, st\<lparr>st_fs := fs'\<rparr>)))"

definition updateMetadata ::
  "prims \<Rightarrow> appstate \<Rightarrow> jsstring \<Rightarrow> Metadata \<Rightarrow> jsstring \<Rightarrow> (error + bool) \<times> appstate" where
  "updateMetadata P st id' metadata userId =
     (case getUserEncryptionKey (st_keys st) userId of
        None \<Rightarrow> (Inl NotAuthenticatedError, st)
      | Some userPassword \<Rightarrow>
          if userPassword = [] then (Inl NotAuthenticatedError, st)
          else
            (case meta_title metadata of
               None \<Rightarrow> (Inl InvalidArgument, st)
             | Some title \<Rightarrow>
                 (case encryptText P (st_rnd st) title userPassword of
                    (encryptedTitle, rnd') \<Rightarrow>
                      let encryptedMetadata = metadata\<lparr>meta_title := Some encryptedTitle\<rparr> in
                      (case updateFileItem (st_db st) id' encryptedMetadata of
                         Inl e \<Rightarrow> (Inl e, st\<lparr>st_rnd := rnd'\<rparr>)
                       | Inr db' \<Rightarrow> (Inr True, st\<lparr>st_db := db', st_rnd := rnd'\<rparr>)))))"

text \<open>
  \<^verbatim>\<open>media:updateMetadata\<close> and \<^verbatim>\<open>file:updateMetadata\<close> have the same body
  (\<open>updateMediaItem\<close> is \<open>updateFileItem\<close>), and so have \<^verbatim>\<open>media:updateDate\<close> and
  \<^verbatim>\<open>file:updateDate\<close>.
\<close>

definition media_updateMetadata ::
  "prims \<Rightarrow> appstate \<Rightarrow> jsstring \<Rightarrow> Metadata \<Rightarrow> jsstring \<Rightarrow> (error + bool) \<times> appstate" where
  "media_updateMetadata = updateMetadata"

definition file_updateMetadata ::
  "prims \<Rightarrow> appstate \<Rightarrow> jsstring \<Rightarrow> Metadata \<Rightarrow> jsstring \<Rightarrow> (error + bool) \<times> appstate" where
  "file_updateMetadata = updateMetadata"

definition updateDate :: "appstate \<Rightarrow> jsstring \<Rightarrow> jsstring \<Rightarrow> appstate" where
  "updateDate st id' date = st\<lparr>st_db := updateFileItemDate (st_db st) id' date\<rparr>"

text \<open>
  \<^verbatim>\<open>database:exportForAI\<close> asks for a directory, creates the export tree and then looks
  up the key; a missing key is thrown and caught, and the handler answers with the
  message. \<open>exportRecords\<close> stands for the rest of the handler, which decrypts and
  writes the user's records.
\<close>

datatype 'r ExportResult = NoWindow | Cancelled | ExportFailed jsstring | Exported 'r

definition NOT_AUTHENTICATED_FOR_DECRYPTION :: jsstring where
  "NOT_AUTHENTICATED_FOR_DECRYPTION = js ''User not authenticated for decryption''"

definition database_exportForAI ::
  "(jsstring \<Rightarrow> jsstring \<Rightarrow> appstate \<Rightarrow> 'r ExportResult \<times> appstate) \<Rightarrow> appstate \<Rightarrow> bool
    \<Rightarrow> jsstring option \<Rightarrow> jsstring \<Rightarrow> 'r ExportResult \<times> appstate" where
  "database_exportForAI exportRecords st hasWindow chosenDir userId =
     (if \<not> hasWindow then (NoWindow, st)
      else
        (case chosenDir of
           None \<Rightarrow> (Cancelled, st)
         | Some baseDir \<Rightarrow>
             (case getUserEncryptionKey (st_keys st) userId of
                None \<Rightarrow> (ExportFailed NOT_AUTHENTICATED_FOR_DECRYPTION, st)
              | Some userPassword \<Rightarrow>
                  if userPassword = [] then (ExportFailed NOT_AUTHENTICATED_FOR_DECRYPTION, st)
                  else exportRecords baseDir userPassword st)))"

subsection \<open>The requests as a state machine\<close>

text \<open>
  The requests that can change the state, each with the inputs of its handler, and the
  state after a request. The listing handlers change nothing and are left out; the
  backup and the restore of the store copy its file as a whole.
\<close>

datatype request =
    Login jsstring jsstring
  | Register jsstring jsstring jsstring jsstring "jsstring option"
  | Logout jsstring
  | DiarySave jsstring DiaryEntry
  | DiaryUpdate jsstring jsstring DiaryEdit jsstring
  | DiaryDelete jsstring
  | MediaUpload bool "(UploadResult \<times> byte list) option" jsstring jsstring jsstring jsstring
  | FileUpload bool "(UploadResult \<times> byte list) option" jsstring jsstring jsstring
  | MediaUpdateMetadata jsstring Metadata jsstring
  | FileUpdateMetadata jsstring Metadata jsstring
  | MediaUpdateDate jsstring jsstring
  | FileUpdateDate jsstring jsstring
  | MediaDelete jsstring
  | FileDelete jsstring
  | FileOpen jsstring jsstring jsstring

fun handle :: "prims \<Rightarrow> appstate \<Rightarrow> request \<Rightarrow> appstate" where
  "handle P st (Login email password) = snd (auth_login P st email password)"
| "handle P st (Register uuid now email password name) =
     snd (auth_register P st uuid now email password name)"
| "handle P st (Logout userId) = auth_logout st userId"
| "handle P st (DiarySave uuid entry) = snd (diary_save P st uuid entry)"
| "handle P st (DiaryUpdate now id' entry userId) = snd (diary_update P st now id' entry userId)"
| "handle P st (DiaryDelete id') = diary_delete st id'"
| "handle P st (MediaUpload hasWindow choice uuid now type userId) =
     snd (media_upload P st hasWindow choice uuid now type userId)"
| "handle P st (FileUpload hasWindow choice uuid now userId) =
     snd (file_upload P st hasWindow choice uuid now userId)"
| "handle P st (MediaUpdateMetadata id' metadata userId) =
     snd (media_updateMetadata P st id' metadata userId)"
| "handle P st (FileUpdateMetadata id' metadata userId) =
     snd (file_updateMetadata P st id' metadata userId)"
| "handle P st (MediaUpdateDate id' date) = updateDate st id' date"
| "handle P st (FileUpdateDate id' date) = updateDate st id' date"
| "handle P st (MediaDelete id') = media_delete st id'"
| "handle P st (FileDelete id') = file_delete st id'"
| "handle P st (FileOpen tempPath encryptedPath userId) =
     snd (file_open P st tempPath encryptedPath userId)"

definition initialState :: "filesystem \<Rightarrow> entropy \<Rightarrow> appstate" where
  "initialState fs rnd =
     \<lparr>st_keys = Map.empty, st_db = \<lparr>users = [], diary_entries = [], files = []\<rparr>,
      st_fs = fs, st_rnd = rnd\<rparr>"

subsection \<open>Ciphertext at rest\<close>

text \<open>
  A string is an encrypted blob when it is four hex fields \<^verbatim>\<open>salt:iv:authTag:data\<close> as
  \<open>encryptText\<close> writes them, with a salt of 64 bytes, an iv of 16 and a tag of 16. The
  store holds ciphertext at rest when the title and the content of every diary entry
  and the \<^verbatim>\<open>metadata.title\<close> of every file record are such blobs.
\<close>

definition isEncryptedBlob :: "jsstring \<Rightarrow> bool" where
  "isEncryptedBlob s =
     (case blobFields s of
        None \<Rightarrow> False
      | Some (salt, iv, authTag, ciphertext) \<Rightarrow>
          length salt = SALT_LENGTH \<and> length iv = IV_LENGTH \<and> length authTag = TAG_LENGTH
          \<and> s = makeBlob salt iv authTag ciphertext)"

definition entryEncrypted :: "DiaryEntry \<Rightarrow> bool" where
  "entryEncrypted entry =
     (isEncryptedBlob (entry_title entry) \<and> isEncryptedBlob (entry_content entry))"

definition itemEncrypted :: "FileItem \<Rightarrow> bool" where
  "itemEncrypted item =
     (case meta_title (file_metadata item) of None \<Rightarrow> False | Some t \<Rightarrow> isEncryptedBlob t)"

definition ciphertextAtRest :: "database \<Rightarrow> bool" where
  "ciphertextAtRest db =
     (list_all entryEncrypted (diary_entries db) \<and> list_all itemEncrypted (files db))"

subsection \<open>An example state\<close>

text \<open>
  One account, \<^verbatim>\<open>alice@example.org\<close> with the password \<^verbatim>\<open>secret\<close> and the id \<^verbatim>\<open>u1\<close>; the
  diary entries and the cached key are given.
\<close>

definition exampleUser :: User where
  "exampleUser =
     \<lparr>user_id = js ''u1'', user_email = js ''alice@example.org'',
      user_password_hash = fst (hashPassword examplePrims exampleEntropy (js ''secret'')),
      user_name = None, user_created_at = js ''2024-01-01''\<rparr>"

definition exampleEntry :: "jsstring \<Rightarrow> jsstring \<Rightarrow> jsstring \<Rightarrow> jsstring \<Rightarrow> DiaryEntry" where
  "exampleEntry id' createdAt title content =
     \<lparr>entry_id = id', entry_title = title, entry_content = content, entry_type = js ''text'',
      entry_entryMode = Some (js ''standalone''), entry_linkedItemId = None,
      entry_createdAt = createdAt, entry_updatedAt = createdAt, entry_userId = js ''u1''\<rparr>"

definition exampleState :: "DiaryEntry list \<Rightarrow> keystore \<Rightarrow> appstate" where
  "exampleState entries userKeys =
     \<lparr>st_keys = userKeys,
      st_db = \<lparr>users = [exampleUser], diary_entries = entries, files = []\<rparr>,
      st_fs = Map.empty, st_rnd = exampleEntropy\<rparr>"

text \<open>The blob that \<open>encryptText\<close> gives a text under the password \<^verbatim>\<open>secret\<close>.\<close>

definition exampleBlob :: "jsstring \<Rightarrow> jsstring" where
  "exampleBlob s = fst (encryptText examplePrims exampleEntropy s (js ''secret''))"

text \<open>
  Two stores for the migration: one as the current schema creates it, and one as an
  earlier version left it, with a table \<^verbatim>\<open>media_items\<close> holding a photo and a table
  \<^verbatim>\<open>diary_entries\<close> that still has the column \<^verbatim>\<open>linked_item_type\<close>.
\<close>

definition exampleMigratedStore :: sqlstore where
  "exampleMigratedStore =
     [''users'' \<mapsto> users_schema, ''diary_entries'' \<mapsto> diary_entries_schema,
      ''files'' \<mapsto> files_schema]"

definition exampleLegacyStore :: sqlstore where
  "exampleLegacyStore =
     [''users'' \<mapsto> users_schema,
      ''diary_entries'' \<mapsto>
        diary_entries_schema
          \<lparr>tbl_columns := tbl_columns diary_entries_schema @ [''linked_item_type'']\<rparr>,
      ''media_items'' \<mapsto>
        \<lparr>tbl_columns = [''id'', ''user_id'', ''title'', ''path'', ''type'', ''created_at'', ''metadata''],
         tbl_primary_key = Some ''id'',
         tbl_not_null = [''user_id'', ''title'', ''path'', ''type'', ''created_at''],
         tbl_check = [],
         tbl_rows =
           [[''id'' \<mapsto> js ''m1'', ''user_id'' \<mapsto> js ''u1'', ''title'' \<mapsto> js ''beach'',
             ''path'' \<mapsto> js ''m1.enc'', ''type'' \<mapsto> js ''photo'',
             ''created_at'' \<mapsto> js ''2024-01-01'']]\<rparr>]"

section \<open>Properties of the encodings\<close>

subsection \<open>Hex\<close>

lemma unat_hexdigit: "n < 16 \<Longrightarrow> unat (hexdigit n) = (if n < 10 then 48 + n else 87 + n)"
  by (simp add: hexdigit_def unat_of_nat del: of_nat_add)

lemma unhex_hexdigit: "n < 16 \<Longrightarrow> unhex (hexdigit n) = Some n"
  by (simp add: unhex_def unat_hexdigit Let_def)

lemma unat_byte_div16: "unat (b :: byte) div 16 < 16"
proof -
  have "unat b < 256" using unsigned_less [of b] by simp
  then show ?thesis by simp
qed

lemma fromHex_toHex: "fromHex (toHex bs) = bs"
  by (induction bs) (simp_all add: toHex_def unhex_hexdigit unat_byte_div16)

lemma length_toHex: "length (toHex bs) = 2 * length bs"
  by (induction bs) (simp_all add: toHex_def)

lemma even_length_toHex: "even (length (toHex bs))"
  by (simp add: length_toHex)

lemma toHex_inject: "toHex a = toHex b \<Longrightarrow> a = b"
  using fromHex_toHex by metis

lemma hexdigit_not_colon: "n < 16 \<Longrightarrow> hexdigit n \<noteq> COLON"
proof
  assume n: "n < 16" and eq: "hexdigit n = COLON"
  have "unat (hexdigit n) = 58" by (simp add: eq COLON_def)
  with n show False by (simp add: unat_hexdigit split: if_splits)
qed

lemma colon_notin_toHex: "COLON \<notin> set (toHex bs)"
proof (induction bs)
  case Nil
  show ?case by (simp add: toHex_def)
next
  case (Cons b bs)
  have "hexdigit (unat b div 16) \<noteq> COLON" "hexdigit (unat b mod 16) \<noteq> COLON"
    by (simp_all add: hexdigit_not_colon unat_byte_div16)
  with Cons show ?case by (auto simp: toHex_def)
qed

subsection \<open>Split\<close>

lemma splitFrom_nosep: "sep \<notin> set a \<Longrightarrow> splitFrom sep cur a = [rev cur @ a]"
  by (induction a arbitrary: cur) auto

lemma splitFrom_sep:
  "sep \<notin> set a \<Longrightarrow> splitFrom sep cur (a @ sep # rest) = (rev cur @ a) # splitFrom sep [] rest"
  by (induction a arbitrary: cur) auto

lemma split_nosep: "sep \<notin> set a \<Longrightarrow> split sep a = [a]"
  by (simp add: split_def splitFrom_nosep)

lemma split_sep: "sep \<notin> set a \<Longrightarrow> split sep (a @ sep # rest) = a # split sep rest"
  by (simp add: split_def splitFrom_sep)

lemma split_blob:
  "split COLON (toHex a @ [COLON] @ toHex b @ [COLON] @ toHex c @ [COLON] @ d)
     = toHex a # toHex b # toHex c # split COLON d"
  using split_sep [OF colon_notin_toHex] by simp

lemma split_hex_blob:
  "split COLON (toHex a @ [COLON] @ toHex b @ [COLON] @ toHex c @ [COLON] @ toHex d)
     = [toHex a, toHex b, toHex c, toHex d]"
  using split_blob [of a b c "toHex d"] split_nosep [OF colon_notin_toHex, of d] by simp

subsection \<open>UTF-8\<close>

lemma step1: "b0 < 0x80 \<Longrightarrow> decode_step b0 r = (b0, 1)"
  by (simp add: decode_step_def)

lemma step2:
  "0xC2 \<le> b0 \<Longrightarrow> b0 \<le> 0xDF \<Longrightarrow> cont b1 \<Longrightarrow>
   decode_step b0 (b1 # r) = ((b0 - 0xC0) * 64 + (b1 - 0x80), 2)"
  by (simp add: decode_step_def)

lemma step3:
  "0xE0 \<le> b0 \<Longrightarrow> b0 \<le> 0xEF \<Longrightarrow> second_lo b0 \<le> b1 \<Longrightarrow> b1 \<le> second_hi b0 \<Longrightarrow> cont b2 \<Longrightarrow>
   decode_step b0 (b1 # b2 # r) = ((b0 - 0xE0) * 4096 + (b1 - 0x80) * 64 + (b2 - 0x80), 3)"
  by (simp add: decode_step_def)

lemma step4:
  "0xF0 \<le> b0 \<Longrightarrow> b0 \<le> 0xF4 \<Longrightarrow> second_lo b0 \<le> b1 \<Longrightarrow> b1 \<le> second_hi b0 \<Longrightarrow> cont b2 \<Longrightarrow>
   cont b3 \<Longrightarrow>
   decode_step b0 (b1 # b2 # b3 # r) =
     ((b0 - 0xF0) * 262144 + (b1 - 0x80) * 4096 + (b2 - 0x80) * 64 + (b3 - 0x80), 4)"
  by (simp add: decode_step_def)

lemma split2: "(c::nat) = c div 64 * 64 + c mod 64"
  by simp

lemma split3: "(c::nat) = c div 4096 * 4096 + (c div 64) mod 64 * 64 + c mod 64"
proof -
  have a: "c = c div 64 * 64 + c mod 64" by simp
  have b: "c div 64 = (c div 64) div 64 * 64 + (c div 64) mod 64" by simp
  have d: "(c div 64) div 64 = c div 4096" by (simp add: div_mult2_eq)
  show ?thesis using a b d by linarith
qed

lemma split4:
  "(c::nat) = c div 262144 * 262144 + (c div 4096) mod 64 * 4096 + (c div 64) mod 64 * 64 + c mod 64"
proof -
  have a: "c = c div 4096 * 4096 + (c div 64) mod 64 * 64 + c mod 64" by (rule split3)
  have b: "c div 4096 = (c div 4096) div 64 * 64 + (c div 4096) mod 64" by simp
  have d: "(c div 4096) div 64 = c div 262144" by (simp add: div_mult2_eq)
  show ?thesis using a b d by linarith
qed


lemma decode_encode1: "c < 0x80 \<Longrightarrow> decode_cps (encode_cp c @ rest) = c # decode_cps rest"
  by (simp add: encode_cp_def step1)

lemma decode_encode2:
  assumes "0x80 \<le> c" "c < 0x800"
  shows "decode_cps (encode_cp c @ rest) = c # decode_cps rest"
proof -
  define h where "h = c div 64"
  define l where "l = c mod 64"
  have c: "c = h * 64 + l" unfolding h_def l_def by simp
  have b: "2 \<le> h" "h \<le> 31" "l < 64" using assms unfolding h_def l_def by simp_all
  have enc: "encode_cp c = [0xC0 + h, 0x80 + l]"
    using assms unfolding encode_cp_def h_def l_def by simp
  have st: "decode_step (0xC0 + h) ((0x80 + l) # rest) = (h * 64 + l, 2)"
    using b step2 [of "0xC0 + h" "0x80 + l" rest] by (simp add: cont_def)
  show ?thesis unfolding enc using st by (simp add: c)
qed

lemma decode_encode3:
  assumes "0x800 \<le> c" "c < 0x10000" "\<not> (0xD800 \<le> c \<and> c \<le> 0xDFFF)"
  shows "decode_cps (encode_cp c @ rest) = c # decode_cps rest"
proof -
  define h where "h = c div 4096"
  define m where "m = (c div 64) mod 64"
  define l where "l = c mod 64"
  have c: "c = h * 4096 + m * 64 + l" unfolding h_def m_def l_def by (rule split3)
  have b: "h \<le> 15" "m < 64" "l < 64" using assms unfolding h_def m_def l_def by simp_all
  have lo: "h = 0 \<Longrightarrow> 32 \<le> m" using assms(1) b unfolding c by linarith
  have hi: "h = 13 \<Longrightarrow> m < 32" using assms(3) b unfolding c by linarith
  have enc: "encode_cp c = [0xE0 + h, 0x80 + m, 0x80 + l]"
    using assms(1,2) unfolding encode_cp_def h_def m_def l_def by simp
  have s: "second_lo (0xE0 + h) \<le> 0x80 + m" "0x80 + m \<le> second_hi (0xE0 + h)"
    using lo hi b by (auto simp: second_lo_def second_hi_def)
  have st: "decode_step (0xE0 + h) ((0x80 + m) # (0x80 + l) # rest) = (h * 4096 + m * 64 + l, 3)"
    using b s step3 [of "0xE0 + h" "0x80 + m" "0x80 + l" rest] by (simp add: cont_def)
  show ?thesis unfolding enc using st by (simp add: c)
qed

lemma decode_encode4:
  assumes "0x10000 \<le> c" "c < 0x110000"
  shows "decode_cps (encode_cp c @ rest) = c # decode_cps rest"
proof -
  define g where "g = c div 262144"
  define h where "h = (c div 4096) mod 64"
  define m where "m = (c div 64) mod 64"
  define l where "l = c mod 64"
  have c: "c = g * 262144 + h * 4096 + m * 64 + l" unfolding g_def h_def m_def l_def by (rule split4)
  have b: "g \<le> 4" "h < 64" "m < 64" "l < 64" using assms unfolding g_def h_def m_def l_def by simp_all
  have lo: "g = 0 \<Longrightarrow> 16 \<le> h" using assms(1) b unfolding c by linarith
  have hi: "g = 4 \<Longrightarrow> h < 16" using assms(2) b unfolding c by linarith
  have enc: "encode_cp c = [0xF0 + g, 0x80 + h, 0x80 + m, 0x80 + l]"
    using assms unfolding encode_cp_def g_def h_def m_def l_def by simp
  have s: "second_lo (0xF0 + g) \<le> 0x80 + h" "0x80 + h \<le> second_hi (0xF0 + g)"
    using lo hi b by (auto simp: second_lo_def second_hi_def)
  have st: "decode_step (0xF0 + g) ((0x80 + h) # (0x80 + m) # (0x80 + l) # rest)
      = (g * 262144 + h * 4096 + m * 64 + l, 4)"
    using b s step4 [of "0xF0 + g" "0x80 + h" "0x80 + m" "0x80 + l" rest] by (simp add: cont_def)
  show ?thesis unfolding enc using st by (simp add: c)
qed

lemma decode_encode: "scalar c \<Longrightarrow> decode_cps (encode_cp c @ rest) = c # decode_cps rest"
  using decode_encode1 [of c rest] decode_encode2 [of c rest] decode_encode3 [of c rest]
    decode_encode4 [of c rest]
  unfolding scalar_def by linarith

lemma encode_cp_bytes: "c < 0x110000 \<Longrightarrow> b \<in> set (encode_cp c) \<Longrightarrow> b < 256"
  by (auto simp: encode_cp_def split: if_splits)

lemma unat16_less: "unat (u :: 16 word) < 65536"
  using unsigned_less [of u] by simp

lemma codepoints_scalar: "c \<in> set (codepoints s) \<Longrightarrow> scalar c"
proof (induction s rule: codepoints.induct)
  case 1
  then show ?case by simp
next
  case (2 u)
  then show ?case using unat16_less [of u] by (auto simp: scalar_def isHigh_def isLow_def)
next
  case (3 u v rest)
  show ?case
  proof (cases "isHigh u \<and> isLow v")
    case True
    have "scalar (0x10000 + (unat u - 0xD800) * 0x400 + (unat v - 0xDC00))"
      using True unfolding scalar_def isHigh_def isLow_def by linarith
    with 3 True show ?thesis by auto
  next
    case False
    have "scalar (if isHigh u \<or> isLow u then 0xFFFD else unat u)"
      using unat16_less [of u] by (auto simp: scalar_def isHigh_def isLow_def)
    with 3 False show ?thesis by auto
  qed
qed

lemma decode_concat:
  "\<forall>c\<in>set cs. scalar c \<Longrightarrow> decode_cps (concat (map encode_cp cs)) = cs"
proof (induction cs)
  case Nil
  show ?case by simp
next
  case (Cons c cs)
  then show ?case using decode_encode [of c "concat (map encode_cp cs)"] by simp
qed

lemma map_unat_of_nat:
  "\<forall>b\<in>set xs. b < 256 \<Longrightarrow> map unat (map of_nat xs :: byte list) = xs"
  by (induction xs) (simp_all add: unat_of_nat)

lemma utf8_bytes_small: "b \<in> set (concat (map encode_cp (codepoints s))) \<Longrightarrow> b < 256"
  using codepoints_scalar encode_cp_bytes by (auto simp: scalar_def)

lemma decode_cps_utf8_encode: "decode_cps (map unat (utf8_encode s)) = codepoints s"
  unfolding utf8_encode_def
  using map_unat_of_nat [of "concat (map encode_cp (codepoints s))"] utf8_bytes_small [of _ s]
    decode_concat [of "codepoints s"] codepoints_scalar [of _ s]
  by simp

lemma units_single: "c < 0x10000 \<Longrightarrow> units_of_cp c = [of_nat c]"
  by (simp add: units_of_cp_def)

lemma units_pair:
  assumes "isHigh u" "isLow v"
  shows "units_of_cp (0x10000 + (unat u - 0xD800) * 0x400 + (unat v - 0xDC00)) = [u, v]"
proof -
  define h where "h = unat u - 0xD800"
  define l where "l = unat v - 0xDC00"
  have b: "h < 0x400" "l < 0x400" using assms unfolding h_def l_def isHigh_def isLow_def by linarith+
  have u: "unat u = 0xD800 + h" "unat v = 0xDC00 + l"
    using assms unfolding h_def l_def isHigh_def isLow_def by linarith+
  have d: "(h * 0x400 + l) div 0x400 = h" "(h * 0x400 + l) mod 0x400 = l" using b by simp_all
  have "units_of_cp (0x10000 + h * 0x400 + l) = [of_nat (0xD800 + h), of_nat (0xDC00 + l)]"
    using d by (simp add: units_of_cp_def add.assoc del: of_nat_add)
  also have "\<dots> = [of_nat (unat u), of_nat (unat v)]" unfolding u ..
  finally show ?thesis unfolding h_def l_def by simp
qed

lemma units_codepoints: "concat (map units_of_cp (codepoints s)) = toWellFormed s"
proof (induction s rule: codepoints.induct)
  case 1
  show ?case by simp
next
  case (2 u)
  show ?case using unat16_less [of u] by (simp add: units_single)
next
  case (3 u v rest)
  show ?case
  proof (cases "isHigh u \<and> isLow v")
    case True
    with 3 show ?thesis by (simp add: units_pair)
  next
    case False
    define x where "x = (if isHigh u \<or> isLow u then 0xFFFD else unat u)"
    define y where "y = (if isHigh u \<or> isLow u then 0xFFFD else u)"
    have xy: "units_of_cp x = [y]"
      unfolding x_def y_def using unat16_less [of u] by (simp add: units_single)
    have c: "codepoints (u # v # rest) = x # codepoints (v # rest)"
      unfolding x_def by (simp add: False)
    have w: "toWellFormed (u # v # rest) = y # toWellFormed (v # rest)"
      unfolding y_def by (simp add: False)
    show ?thesis unfolding c w using 3(2) [OF False] xy by simp
  qed
qed

lemma utf8_decode_encode: "utf8_decode (utf8_encode s) = toWellFormed s"
  by (simp add: utf8_decode_def decode_cps_utf8_encode units_codepoints)

section \<open>Properties of the ciphers\<close>

lemma xor_stream_length: "length (xor_stream ks bs) = length bs"
  by (simp add: xor_stream_def)

lemma xor_stream_from:
  "map (\<lambda>(i, b). b XOR ks i) (enumerate n (map (\<lambda>(i, b). b XOR ks i) (enumerate n bs))) = bs"
  by (induction bs arbitrary: n) (simp_all add: xor.assoc)

lemma xor_stream_involution: "xor_stream ks (xor_stream ks bs) = bs"
  unfolding xor_stream_def by (rule xor_stream_from)

lemma tag_bytes_length: "length (tag_bytes t) = 16"
  by (simp add: tag_bytes_def)

lemma getAuthTag_length: "length (getAuthTag P key iv ct) = 16"
  by (simp add: getAuthTag_def tag_bytes_length)

lemma setAuthTag_getAuthTag: "setAuthTag (getAuthTag P key iv ct) = Inr ()"
  by (simp add: setAuthTag_def getAuthTag_length validTagLength_def)

lemma randomBytes_length: "length (fst (randomBytes n rnd)) = n"
  by (simp add: randomBytes_def)

lemma deriveKey_length: "length (deriveKey P password salt) = KEY_LENGTH"
  by (simp add: deriveKey_def pbkdf2Sync_def)

text \<open>The pieces of the blob that \<open>encryptText\<close> builds.\<close>

lemma encryptText_blob:
  assumes "generateSalt rnd = (salt, rnd1)" "randomBytes IV_LENGTH rnd1 = (iv, rnd2)"
    and "key = deriveKey P password salt" "ct = cipher_update P key iv (utf8_encode text)"
  shows "fst (encryptText P rnd text password)
      = toHex salt @ [COLON] @ toHex iv @ [COLON] @ toHex (getAuthTag P key iv ct) @ [COLON] @ toHex ct"
    and "iv \<noteq> []"
proof -
  show "fst (encryptText P rnd text password)
      = toHex salt @ [COLON] @ toHex iv @ [COLON] @ toHex (getAuthTag P key iv ct) @ [COLON] @ toHex ct"
    using assms by (simp add: encryptText_def Let_def)
  have "length iv = IV_LENGTH" using randomBytes_length [of IV_LENGTH rnd1] assms(2) by simp
  then show "iv \<noteq> []" by (auto simp: IV_LENGTH_def)
qed

text \<open>What \<open>decryptText\<close> does on a blob of four hex pieces.\<close>

lemma decryptText_hex_blob:
  assumes "iv \<noteq> []" "validTagLength (length tag)"
  shows "decryptText P (toHex salt @ [COLON] @ toHex iv @ [COLON] @ toHex tag @ [COLON] @ toHex ct) password
      = (case decipher_final P (deriveKey P password salt) iv tag ct of
           Inl e \<Rightarrow> Inl e
         | Inr decrypted \<Rightarrow> Inr (utf8_decode decrypted))"
  unfolding decryptText_def split_hex_blob using assms
  by (simp add: fromHex_toHex createDecipheriv_def setAuthTag_def even_length_toHex)

lemma decipher_final_own_tag:
  "decipher_final P key iv (getAuthTag P key iv ct) ct = Inr (xor_stream (gcm_keystream P key iv) ct)"
  by (simp add: decipher_final_def getAuthTag_length)

lemma decipher_final_other_tag:
  "length tag = 16 \<Longrightarrow> tag \<noteq> getAuthTag P key iv ct \<Longrightarrow>
   decipher_final P key iv tag ct = Inl AuthenticationError"
  using getAuthTag_length [of P key iv ct] by (auto simp: decipher_final_def)

lemma decryptText_encryptText:
  "decryptText P (fst (encryptText P rnd text password)) password = Inr (toWellFormed text)"
proof -
  obtain salt rnd1 where s: "generateSalt rnd = (salt, rnd1)" by (cases "generateSalt rnd")
  obtain iv rnd2 where i: "randomBytes IV_LENGTH rnd1 = (iv, rnd2)"
    by (cases "randomBytes IV_LENGTH rnd1")
  define key where "key = deriveKey P password salt"
  define ct where "ct = cipher_update P key iv (utf8_encode text)"
  note b = encryptText_blob [OF s i key_def ct_def]
  have v: "validTagLength (length (getAuthTag P key iv ct))"
    by (simp add: getAuthTag_length validTagLength_def)
  show ?thesis
    unfolding b(1) decryptText_hex_blob [OF b(2) v] key_def [symmetric] decipher_final_own_tag
    by (simp add: ct_def cipher_update_def xor_stream_involution utf8_decode_encode)
qed

text \<open>
  Claim C1 (as amended). For every string \<open>s\<close>, every password \<open>p\<close> and every draw of
  the salt and the iv, \<open>decryptText (encryptText s p) p\<close> returns \<open>s.toWellFormed()\<close>:
  the string \<open>s\<close> with each unpaired surrogate replaced by U+FFFD. It returns \<open>s\<close>
  itself for every well-formed \<open>s\<close>.
\<close>

theorem text_round_trip:
  "decryptText P (fst (encryptText P rnd s p)) p = Inr (toWellFormed s) \<and>
   (isWellFormed s \<longrightarrow> decryptText P (fst (encryptText P rnd s p)) p = Inr s)"
proof (intro conjI impI)
  show "decryptText P (fst (encryptText P rnd s p)) p = Inr (toWellFormed s)"
    by (rule decryptText_encryptText)
next
  assume "isWellFormed s"
  then have "toWellFormed s = s" by (simp add: isWellFormed_def)
  then show "decryptText P (fst (encryptText P rnd s p)) p = Inr s"
    using decryptText_encryptText [of P rnd s p] by simp
qed

theorem text_round_trip_witness:
  "isWellFormed (js ''dear diary'') \<and>
   decryptText examplePrims
     (fst (encryptText examplePrims exampleEntropy (js ''dear diary'') (js ''secret'')))
     (js ''secret'') = Inr (js ''dear diary'')"
proof -
  have w: "isWellFormed (js ''dear diary'')"
    by (simp add: isWellFormed_def js_def isHigh_def isLow_def)
  with text_round_trip [of examplePrims exampleEntropy "js ''dear diary''" "js ''secret''"]
  show ?thesis by blast
qed

text \<open>
  Claim C1 as stated fails on a string with an unpaired surrogate: the one-unit string
  \<^verbatim>\<open>'\uD800'\<close> is encrypted as the three bytes of U+FFFD and comes back as
  U+FFFD. (By \<open>decryptText_encryptText\<close> this is so for every choice of the
  primitives, of the random bytes and of the password.)
\<close>

theorem text_round_trip_counterexample:
  "decryptText examplePrims
     (fst (encryptText examplePrims exampleEntropy [0xD800] (js ''secret'')))
     (js ''secret'') = Inr [0xFFFD]"
  by (simp add: decryptText_encryptText isHigh_def)

subsection \<open>Password hashes\<close>

lemma hashPassword_stored:
  "fst (hashPassword P rnd password)
     = toHex (fst (randomBytes 16 rnd)) @ [COLON]
       @ toHex (pbkdf2Sync P (utf8_encode password)
           (utf8_encode (toHex (fst (randomBytes 16 rnd)))) ITERATIONS 64)"
  by (simp add: hashPassword_def Let_def split: prod.splits)

lemma hashPassword_entropy: "snd (hashPassword P rnd password) = snd (randomBytes 16 rnd)"
  by (simp add: hashPassword_def Let_def split: prod.splits)

lemma verifyPassword_stored:
  "verifyPassword P password (toHex saltBytes @ [COLON] @ toHex h)
     = (h = pbkdf2Sync P (utf8_encode password) (utf8_encode (toHex saltBytes)) ITERATIONS 64)"
proof -
  have "split COLON (toHex saltBytes @ [COLON] @ toHex h) = [toHex saltBytes, toHex h]"
    using split_sep [OF colon_notin_toHex, of saltBytes "toHex h"]
      split_nosep [OF colon_notin_toHex, of h] by simp
  then show ?thesis using toHex_inject by (auto simp: verifyPassword_def)
qed

lemma verifyPassword_hashPassword:
  "verifyPassword P p (fst (hashPassword P rnd p2))
     = (pbkdf2Sync P (utf8_encode p) (utf8_encode (toHex (fst (randomBytes 16 rnd)))) ITERATIONS 64
        = pbkdf2Sync P (utf8_encode p2) (utf8_encode (toHex (fst (randomBytes 16 rnd)))) ITERATIONS 64)"
  unfolding hashPassword_stored verifyPassword_stored by auto

lemma toHex_append_inject:
  assumes "toHex a @ [COLON] @ x = toHex b @ [COLON] @ y"
  shows "a = b"
proof -
  have "split COLON (toHex a @ [COLON] @ x) = toHex a # split COLON x"
    "split COLON (toHex b @ [COLON] @ y) = toHex b # split COLON y"
    using split_sep [OF colon_notin_toHex] by simp_all
  with assms have "toHex a = toHex b" by simp
  then show ?thesis by (rule toHex_inject)
qed

text \<open>
  Claim C8 (as amended). \<open>verifyPassword p (hashPassword p)\<close> is true.
  \<open>verifyPassword p (hashPassword p2)\<close> is true exactly when PBKDF2 derives the same 64
  bytes from \<open>p\<close> and from \<open>p2\<close> under the stored salt, and so whenever the two
  passwords have the same UTF-8 encoding; it is false otherwise. A second call of
  \<open>hashPassword p\<close> gives a string that verifies too, and a different string when
  the two calls draw different salts.
\<close>

theorem password_hash:
  "verifyPassword P p (fst (hashPassword P rnd p)) \<and>
   (verifyPassword P p (fst (hashPassword P rnd p2))
      = (pbkdf2Sync P (utf8_encode p) (utf8_encode (toHex (fst (randomBytes 16 rnd)))) ITERATIONS 64
         = pbkdf2Sync P (utf8_encode p2) (utf8_encode (toHex (fst (randomBytes 16 rnd)))) ITERATIONS 64)) \<and>
   (utf8_encode p = utf8_encode p2 \<longrightarrow> verifyPassword P p (fst (hashPassword P rnd p2))) \<and>
   verifyPassword P p (fst (hashPassword P (snd (hashPassword P rnd p)) p)) \<and>
   (fst (randomBytes 16 rnd) \<noteq> fst (randomBytes 16 (snd (hashPassword P rnd p))) \<longrightarrow>
      fst (hashPassword P rnd p) \<noteq> fst (hashPassword P (snd (hashPassword P rnd p)) p))"
proof (intro conjI impI)
  show "verifyPassword P p (fst (hashPassword P rnd p))"
    by (simp add: verifyPassword_hashPassword)
  show "verifyPassword P p (fst (hashPassword P (snd (hashPassword P rnd p)) p))"
    by (simp add: verifyPassword_hashPassword)
  show "verifyPassword P p (fst (hashPassword P rnd p2))
      = (pbkdf2Sync P (utf8_encode p) (utf8_encode (toHex (fst (randomBytes 16 rnd)))) ITERATIONS 64
         = pbkdf2Sync P (utf8_encode p2) (utf8_encode (toHex (fst (randomBytes 16 rnd)))) ITERATIONS 64)"
    by (rule verifyPassword_hashPassword)
next
  assume "utf8_encode p = utf8_encode p2"
  then show "verifyPassword P p (fst (hashPassword P rnd p2))"
    by (simp add: verifyPassword_hashPassword)
next
  assume d: "fst (randomBytes 16 rnd) \<noteq> fst (randomBytes 16 (snd (hashPassword P rnd p)))"
  show "fst (hashPassword P rnd p) \<noteq> fst (hashPassword P (snd (hashPassword P rnd p)) p)"
  proof
    assume "fst (hashPassword P rnd p) = fst (hashPassword P (snd (hashPassword P rnd p)) p)"
    then have "fst (randomBytes 16 rnd) = fst (randomBytes 16 (snd (hashPassword P rnd p)))"
      unfolding hashPassword_stored by (rule toHex_append_inject)
    with d show False by simp
  qed
qed


lemma utf8_secret: "utf8_encode (js ''secret'') = [115, 101, 99, 114, 101, 116]"
  by (simp add: utf8_encode_def js_def isHigh_def isLow_def encode_cp_def)

lemma utf8_Secret: "utf8_encode (js ''Secret'') = [83, 101, 99, 114, 101, 116]"
  by (simp add: utf8_encode_def js_def isHigh_def isLow_def encode_cp_def)

lemma example_pbkdf2_hd:
  "0 < n \<Longrightarrow> hd (pbkdf2Sync examplePrims password salt iterations n) = sum_list password"
  by (simp add: pbkdf2Sync_def examplePrims_def hd_map upt_conv_Cons)

theorem password_hash_witness:
  "verifyPassword examplePrims (js ''secret'')
     (fst (hashPassword examplePrims exampleEntropy (js ''secret''))) \<and>
   \<not> verifyPassword examplePrims (js ''Secret'')
     (fst (hashPassword examplePrims exampleEntropy (js ''secret''))) \<and>
   verifyPassword examplePrims (js ''secret'')
     (fst (hashPassword examplePrims
        (snd (hashPassword examplePrims exampleEntropy (js ''secret''))) (js ''secret''))) \<and>
   fst (hashPassword examplePrims exampleEntropy (js ''secret''))
     \<noteq> fst (hashPassword examplePrims
        (snd (hashPassword examplePrims exampleEntropy (js ''secret''))) (js ''secret''))"
proof -
  define salt where "salt = utf8_encode (toHex (fst (randomBytes 16 exampleEntropy)))"
  have "hd (pbkdf2Sync examplePrims (utf8_encode (js ''Secret'')) salt ITERATIONS 64)
      \<noteq> hd (pbkdf2Sync examplePrims (utf8_encode (js ''secret'')) salt ITERATIONS 64)"
    by (simp add: example_pbkdf2_hd utf8_secret utf8_Secret)
  then have h: "pbkdf2Sync examplePrims (utf8_encode (js ''Secret'')) salt ITERATIONS 64
      \<noteq> pbkdf2Sync examplePrims (utf8_encode (js ''secret'')) salt ITERATIONS 64"
    by metis
  have "hd (fst (randomBytes 16 exampleEntropy))
      \<noteq> hd (fst (randomBytes 16 (snd (hashPassword examplePrims exampleEntropy (js ''secret'')))))"
    by (simp add: hashPassword_entropy randomBytes_def exampleEntropy_def hd_map upt_conv_Cons)
  then have d: "fst (randomBytes 16 exampleEntropy)
      \<noteq> fst (randomBytes 16 (snd (hashPassword examplePrims exampleEntropy (js ''secret''))))"
    by metis
  show ?thesis
    using h d
      password_hash [of examplePrims "js ''secret''" exampleEntropy "js ''secret''"]
      password_hash [of examplePrims "js ''Secret''" exampleEntropy "js ''secret''"]
    unfolding salt_def by blast
qed

lemma verifyPassword_same_utf8:
  "utf8_encode p = utf8_encode p2 \<Longrightarrow> verifyPassword P p (fst (hashPassword P rnd p2))"
  by (simp add: verifyPassword_hashPassword)

lemma utf8_lone_surrogate: "isHigh u \<or> isLow u \<Longrightarrow> utf8_encode [u] = [0xEF, 0xBF, 0xBD]"
  by (simp add: utf8_encode_def encode_cp_def)

text \<open>
  Claim C8 as stated fails for two different passwords that are each one unpaired
  surrogate: both are hashed as the three bytes of U+FFFD, so one verifies against the
  hash of the other (by \<open>verifyPassword_same_utf8\<close>, for every choice of the primitives
  and of the random bytes).
\<close>

theorem password_hash_counterexample:
  "[0xD801] \<noteq> [0xD800 :: 16 word] \<and>
   verifyPassword examplePrims [0xD801] (fst (hashPassword examplePrims exampleEntropy [0xD800]))"
proof -
  have "utf8_encode [0xD801] = utf8_encode [0xD800]"
    by (simp add: utf8_lone_surrogate isHigh_def)
  then show ?thesis by (simp add: verifyPassword_same_utf8)
qed

subsection \<open>Tampering and wrong passwords\<close>

lemma blobFields_makeBlob: "blobFields (makeBlob salt iv tag ct) = Some (salt, iv, tag, ct)"
  unfolding blobFields_def makeBlob_def split_hex_blob by (simp add: fromHex_toHex)

lemma encryptText_makeBlob:
  "fst (encryptText P rnd s p)
     = makeBlob (fst (generateSalt rnd)) (fst (randomBytes IV_LENGTH (snd (generateSalt rnd))))
         (getAuthTag P (deriveKey P p (fst (generateSalt rnd)))
            (fst (randomBytes IV_LENGTH (snd (generateSalt rnd))))
            (cipher_update P (deriveKey P p (fst (generateSalt rnd)))
               (fst (randomBytes IV_LENGTH (snd (generateSalt rnd)))) (utf8_encode s)))
         (cipher_update P (deriveKey P p (fst (generateSalt rnd)))
            (fst (randomBytes IV_LENGTH (snd (generateSalt rnd)))) (utf8_encode s))"
  by (simp add: encryptText_def makeBlob_def Let_def split: prod.splits)

lemma decryptText_makeBlob:
  assumes "iv \<noteq> []" "length tag = 16"
  shows "decryptText P (makeBlob salt iv tag ct) p
      = (if getAuthTag P (deriveKey P p salt) iv ct = tag
           then Inr (utf8_decode (xor_stream (gcm_keystream P (deriveKey P p salt) iv) ct))
         else Inl AuthenticationError)"
proof -
  have v: "validTagLength (length tag)" using assms(2) by (simp add: validTagLength_def)
  show ?thesis
    unfolding makeBlob_def decryptText_hex_blob [OF assms(1) v]
    using assms(2) getAuthTag_length [of P "deriveKey P p salt" iv ct]
    by (simp add: decipher_final_def)
qed


lemma flipByte_length: "length (flipByte i m bs) = length bs"
  by (simp add: flipByte_def)

lemma flipByte_neq: "i < length bs \<Longrightarrow> m \<noteq> 0 \<Longrightarrow> flipByte i m bs \<noteq> bs"
proof
  assume i: "i < length bs" and m: "m \<noteq> 0" and e: "flipByte i m bs = bs"
  have "flipByte i m bs ! i = bs ! i XOR m" using i by (simp add: flipByte_def)
  with e have "bs ! i XOR m = bs ! i" by simp
  then have "bs ! i XOR (bs ! i XOR m) = bs ! i XOR bs ! i" by simp
  then have "m = 0" by (simp add: xor.assoc [symmetric])
  with m show False by simp
qed


lemma example_key_hd: "hd (deriveKey examplePrims password salt) = sum_list (utf8_encode password)"
  by (simp add: deriveKey_def example_pbkdf2_hd KEY_LENGTH_def)

lemma example_tag:
  "getAuthTag examplePrims key iv ct = tag_bytes (ucast (hd key) * 256 + ucast (sum_list ct))"
  by (simp add: getAuthTag_def examplePrims_def)



lemma blobFields_encryptText:
  "blobFields (fst (encryptText P rnd s p))
     = Some (fst (generateSalt rnd), fst (randomBytes IV_LENGTH (snd (generateSalt rnd))),
         getAuthTag P (deriveKey P p (fst (generateSalt rnd)))
            (fst (randomBytes IV_LENGTH (snd (generateSalt rnd))))
            (cipher_update P (deriveKey P p (fst (generateSalt rnd)))
               (fst (randomBytes IV_LENGTH (snd (generateSalt rnd)))) (utf8_encode s)),
         cipher_update P (deriveKey P p (fst (generateSalt rnd)))
            (fst (randomBytes IV_LENGTH (snd (generateSalt rnd)))) (utf8_encode s))"
  unfolding encryptText_makeBlob blobFields_makeBlob ..




subsection \<open>Files\<close>

lemma generateSalt_length: "length (fst (generateSalt rnd)) = SALT_LENGTH"
  by (simp add: generateSalt_def randomBytes_length)

lemma cipher_update_length: "length (cipher_update P key iv data) = length data"
  by (simp add: cipher_update_def xor_stream_length)

text \<open>The four slices that \<open>decryptFile\<close> takes of a file laid out as \<open>encryptFile\<close> writes it.\<close>

lemma subarray_layout:
  assumes "length salt = SALT_LENGTH" "length iv = IV_LENGTH" "length tag = TAG_LENGTH"
  shows "subarray 0 SALT_LENGTH (salt @ iv @ ct @ tag) = salt"
    and "subarray SALT_LENGTH (SALT_LENGTH + IV_LENGTH) (salt @ iv @ ct @ tag) = iv"
    and "subarray (length (salt @ iv @ ct @ tag) - TAG_LENGTH) (length (salt @ iv @ ct @ tag))
           (salt @ iv @ ct @ tag) = tag"
    and "subarray (SALT_LENGTH + IV_LENGTH) (length (salt @ iv @ ct @ tag) - TAG_LENGTH)
           (salt @ iv @ ct @ tag) = ct"
    and "\<not> length (salt @ iv @ ct @ tag) < SALT_LENGTH + IV_LENGTH + TAG_LENGTH"
  using assms by (simp_all add: subarray_def)


lemma decryptFile_layout:
  assumes "fs inputPath = Some (salt @ iv @ ct @ tag)"
    and "length salt = SALT_LENGTH" "length iv = IV_LENGTH" "length tag = TAG_LENGTH"
  shows "decryptFile P fs inputPath outputPath password
      = (case decipher_final P (deriveKey P password salt) iv tag ct of
           Inl e \<Rightarrow> (Inl e, fs)
         | Inr decrypted \<Rightarrow> (Inr (), fs(outputPath \<mapsto> decrypted)))"
proof -
  have iv: "createDecipheriv (deriveKey P password salt) iv = Inr ()"
    using assms(3) by (auto simp: createDecipheriv_def IV_LENGTH_def)
  have tag: "setAuthTag tag = Inr ()"
    using assms(4) by (simp add: setAuthTag_def validTagLength_def TAG_LENGTH_def)
  note s = subarray_layout [OF assms(2,3,4), of ct]
  show ?thesis
    by (simp only: decryptFile_def assms(1) option.case s if_False Let_def iv tag sum.case)
qed


text \<open>
  Claim C6. \<open>decryptFile\<close> on a file shorter than 64 + 16 + 16 = 96 bytes fails with
  \<open>FormatError\<close> and leaves the file system as it was; whenever \<open>decryptFile\<close> fails,
  for whatever reason, the file system is as it was; and when it succeeds the
  destination holds the whole plaintext, as long as the source without its 96 bytes of
  salt, iv and tag.
\<close>

theorem decryptFile_all_or_nothing:
  "(\<forall>data. fs sourcePath = Some data \<and> length data < 64 + 16 + 16 \<longrightarrow>
       decryptFile P fs sourcePath destPath p = (Inl FormatError, fs)) \<and>
   (\<forall>e fs'. decryptFile P fs sourcePath destPath p = (Inl e, fs') \<longrightarrow> fs' = fs) \<and>
   (\<forall>fs'. decryptFile P fs sourcePath destPath p = (Inr (), fs') \<longrightarrow>
       (\<exists>plain. fs' = fs(destPath \<mapsto> plain) \<and>
          (\<forall>data. fs sourcePath = Some data \<longrightarrow> length plain + (64 + 16 + 16) = length data)))"
proof (intro conjI allI impI)
  fix data
  assume "fs sourcePath = Some data \<and> length data < 64 + 16 + 16"
  then show "decryptFile P fs sourcePath destPath p = (Inl FormatError, fs)"
    by (simp add: decryptFile_def SALT_LENGTH_def IV_LENGTH_def TAG_LENGTH_def)
next
  fix e fs'
  assume "decryptFile P fs sourcePath destPath p = (Inl e, fs')"
  then show "fs' = fs"
    by (auto simp: decryptFile_def Let_def split: option.splits if_splits sum.splits)
next
  fix fs'
  assume a: "decryptFile P fs sourcePath destPath p = (Inr (), fs')"
  then obtain data where d: "fs sourcePath = Some data"
    by (cases "fs sourcePath") (auto simp: decryptFile_def)
  from a d have big: "\<not> length data < SALT_LENGTH + IV_LENGTH + TAG_LENGTH"
    by (auto simp: decryptFile_def split: if_splits)
  define salt where "salt = subarray 0 SALT_LENGTH data"
  define iv where "iv = subarray SALT_LENGTH (SALT_LENGTH + IV_LENGTH) data"
  define tag where "tag = subarray (length data - TAG_LENGTH) (length data) data"
  define ct where "ct = subarray (SALT_LENGTH + IV_LENGTH) (length data - TAG_LENGTH) data"
  define plain where "plain = xor_stream (gcm_keystream P (deriveKey P p salt) iv) ct"
  from a d big have "fs' = fs(destPath \<mapsto> plain)"
    unfolding plain_def salt_def iv_def tag_def ct_def
    by (auto simp: decryptFile_def Let_def decipher_final_def split: if_splits sum.splits)
  moreover have "length plain + (64 + 16 + 16) = length data"
    using big unfolding plain_def ct_def
    by (simp add: xor_stream_length subarray_def SALT_LENGTH_def IV_LENGTH_def TAG_LENGTH_def)
  ultimately show "\<exists>plain. fs' = fs(destPath \<mapsto> plain) \<and>
      (\<forall>data. fs sourcePath = Some data \<longrightarrow> length plain + (64 + 16 + 16) = length data)"
    using d by auto
qed



lemma example_decipher_final:
  "decipher_final examplePrims (deriveKey examplePrims (js ''secret'') salt) iv tag []
     = (if take (length tag) [0, 0, 0, 0, 0, 0, 0, 0, 0, 0, 0, 0, 0, 0, 134, 0] = tag
          then Inr [] else Inl AuthenticationError)"
proof -
  have "getAuthTag examplePrims (deriveKey examplePrims (js ''secret'') salt) iv []
      = [0, 0, 0, 0, 0, 0, 0, 0, 0, 0, 0, 0, 0, 0, 134, 0]"
    unfolding example_tag example_key_hd utf8_secret
    by (simp add: tag_bytes_def upt_conv_Cons drop_bit_eq_div)
  then show ?thesis by (simp add: decipher_final_def xor_stream_def)
qed

theorem decryptFile_all_or_nothing_witness:
  "decryptFile examplePrims [js ''a.enc'' \<mapsto> replicate 95 0] (js ''a.enc'') (js ''a'') (js ''secret'')
     = (Inl FormatError, [js ''a.enc'' \<mapsto> replicate 95 0]) \<and>
   decryptFile examplePrims [js ''a.enc'' \<mapsto> replicate 96 0] (js ''a.enc'') (js ''a'') (js ''secret'')
     = (Inl AuthenticationError, [js ''a.enc'' \<mapsto> replicate 96 0]) \<and>
   decryptFile examplePrims
       [js ''a.enc'' \<mapsto> replicate 80 0 @ [0, 0, 0, 0, 0, 0, 0, 0, 0, 0, 0, 0, 0, 0, 134, 0]]
       (js ''a.enc'') (js ''a'') (js ''secret'')
     = (Inr (), [js ''a.enc'' \<mapsto> replicate 80 0 @ [0, 0, 0, 0, 0, 0, 0, 0, 0, 0, 0, 0, 0, 0, 134, 0],
                 js ''a'' \<mapsto> []])"
proof -
  define short where "short = [js ''a.enc'' \<mapsto> replicate 95 (0 :: byte)]"
  define zeros where "zeros = [js ''a.enc'' \<mapsto> replicate 96 (0 :: byte)]"
  define good where
    "good = [js ''a.enc'' \<mapsto> replicate 80 0 @ [0, 0, 0, 0, 0, 0, 0, 0, 0, 0, 0, 0, 0, 0, 134, 0 :: byte]]"
  have 1: "decryptFile examplePrims short (js ''a.enc'') (js ''a'') (js ''secret'')
      = (Inl FormatError, short)"
    using decryptFile_all_or_nothing [of short "js ''a.enc''" examplePrims "js ''a''" "js ''secret''"]
    by (simp add: short_def)
  have r16: "replicate 16 (0 :: byte) = [0, 0, 0, 0, 0, 0, 0, 0, 0, 0, 0, 0, 0, 0, 0, 0]"
    by (simp add: numeral_eq_Suc)
  have z: "zeros (js ''a.enc'') = Some (replicate 64 0 @ replicate 16 0 @ [] @ replicate 16 0)"
    by (simp add: zeros_def replicate_add [symmetric])
  have "fst (decryptFile examplePrims zeros (js ''a.enc'') (js ''a'') (js ''secret''))
      = Inl AuthenticationError"
    using z decryptFile_layout [of zeros "js ''a.enc''" "replicate 64 0" "replicate 16 0" "[]"
        "replicate 16 0" examplePrims "js ''a''" "js ''secret''"]
    by (simp add: SALT_LENGTH_def IV_LENGTH_def TAG_LENGTH_def example_decipher_final r16)
  then have 2: "decryptFile examplePrims zeros (js ''a.enc'') (js ''a'') (js ''secret'')
      = (Inl AuthenticationError, zeros)"
    using decryptFile_all_or_nothing [of zeros "js ''a.enc''" examplePrims "js ''a''" "js ''secret''"]
    by (metis prod.collapse)
  have g: "good (js ''a.enc'') = Some (replicate 64 0 @ replicate 16 0 @ []
      @ [0, 0, 0, 0, 0, 0, 0, 0, 0, 0, 0, 0, 0, 0, 134, 0])"
    by (simp add: good_def replicate_add [symmetric])
  have "fst (decryptFile examplePrims good (js ''a.enc'') (js ''a'') (js ''secret'')) = Inr ()"
    using g decryptFile_layout [of good "js ''a.enc''" "replicate 64 0" "replicate 16 0" "[]"
        "[0, 0, 0, 0, 0, 0, 0, 0, 0, 0, 0, 0, 0, 0, 134, 0]" examplePrims "js ''a''" "js ''secret''"]
    by (simp add: SALT_LENGTH_def IV_LENGTH_def TAG_LENGTH_def example_decipher_final)
  then obtain fs' where r: "decryptFile examplePrims good (js ''a.enc'') (js ''a'') (js ''secret'')
      = (Inr (), fs')"
    by (metis prod.collapse)
  with decryptFile_all_or_nothing [of good "js ''a.enc''" examplePrims "js ''a''" "js ''secret''"]
  obtain plain where p: "fs' = good(js ''a'' \<mapsto> plain)"
    "\<forall>data. good (js ''a.enc'') = Some data \<longrightarrow> length plain + (64 + 16 + 16) = length data"
    by blast
  from p(2) have "plain = []" by (simp add: good_def)
  with r p(1) have 3: "decryptFile examplePrims good (js ''a.enc'') (js ''a'') (js ''secret'')
      = (Inr (), good(js ''a'' \<mapsto> []))"
    by simp
  from 1 2 3 show ?thesis unfolding short_def zeros_def good_def by simp
qed

section \<open>Properties of the handlers\<close>

lemma length_insertDesc: "length (insertDesc k r xs) = Suc (length xs)"
  by (induction xs) simp_all

lemma length_orderByDesc: "length (orderByDesc k rows) = length rows"
  unfolding orderByDesc_def by (induction rows) (simp_all add: length_insertDesc)

lemma set_insertDesc: "set (insertDesc k r xs) = insert r (set xs)"
  by (induction xs) auto

lemma set_orderByDesc: "set (orderByDesc k rows) = set rows"
  unfolding orderByDesc_def by (induction rows) (simp_all add: set_insertDesc)

lemma length_getDiaryEntries:
  "length (getDiaryEntries db userId)
     = length (filter (\<lambda>entry. entry_userId entry = userId) (diary_entries db))"
  by (simp add: getDiaryEntries_def length_orderByDesc)

subsection \<open>Listing the diary\<close>

text \<open>
  Claim C3 (as amended). For every user whose cached session key is not the empty
  string, \<open>diary_getAll\<close> returns one result for each stored entry of the user, in the
  order of the store's answer: the entry with its title and content decrypted when both
  decrypt, and the entry with the two placeholders in their place when either fails to.
  No failure aborts the listing.
\<close>

theorem diary_getAll_batch:
  assumes "getUserEncryptionKey (st_keys st) userId = Some userPassword" "userPassword \<noteq> []"
  shows "\<exists>result.
           diary_getAll P st userId = Inr result \<and>
           length result
             = length (filter (\<lambda>entry. entry_userId entry = userId) (diary_entries (st_db st))) \<and>
           (\<forall>i < length result.
              result ! i =
                (let entry = getDiaryEntries (st_db st) userId ! i
                 in case decryptText P (entry_title entry) userPassword of
                      Inl e \<Rightarrow> entry\<lparr>entry_title := TITLE_PLACEHOLDER,
                                      entry_content := CONTENT_PLACEHOLDER\<rparr>
                    | Inr t \<Rightarrow>
                        (case decryptText P (entry_content entry) userPassword of
                           Inl e \<Rightarrow> entry\<lparr>entry_title := TITLE_PLACEHOLDER,
                                           entry_content := CONTENT_PLACEHOLDER\<rparr>
                         | Inr c \<Rightarrow> entry\<lparr>entry_title := t, entry_content := c\<rparr>)))"
proof -
  define result where
    "result = map (decryptEntry P userPassword) (getDiaryEntries (st_db st) userId)"
  have r: "diary_getAll P st userId = Inr result"
    using assms by (simp add: diary_getAll_def result_def)
  have l: "length result
      = length (filter (\<lambda>entry. entry_userId entry = userId) (diary_entries (st_db st)))"
    by (simp add: result_def length_getDiaryEntries)
  have e: "result ! i = decryptEntry P userPassword (getDiaryEntries (st_db st) userId ! i)"
    if "i < length result" for i
    using that by (simp add: result_def)
  show ?thesis
    using r l e by (auto simp: decryptEntry_def Let_def)
qed

lemma tampered_tag_rejected:
  assumes "i < 16" "m \<noteq> 0"
  shows "decryptText P (tamperTag i m (fst (encryptText P rnd s p))) p = Inl AuthenticationError"
proof -
  define salt where "salt = fst (generateSalt rnd)"
  define iv where "iv = fst (randomBytes IV_LENGTH (snd (generateSalt rnd)))"
  define ct where "ct = cipher_update P (deriveKey P p salt) iv (utf8_encode s)"
  define tag where "tag = getAuthTag P (deriveKey P p salt) iv ct"
  have f: "blobFields (fst (encryptText P rnd s p)) = Some (salt, iv, tag, ct)"
    unfolding blobFields_encryptText salt_def iv_def ct_def tag_def ..
  have "length iv = IV_LENGTH" unfolding iv_def by (rule randomBytes_length)
  then have iv: "iv \<noteq> []" by (auto simp: IV_LENGTH_def)
  have l: "length tag = 16" unfolding tag_def by (rule getAuthTag_length)
  have n: "flipByte i m tag \<noteq> tag" using assms l by (simp add: flipByte_neq)
  have l': "length (flipByte i m tag) = 16" by (simp add: flipByte_length l)
  have "decryptText P (makeBlob salt iv (flipByte i m tag) ct) p = Inl AuthenticationError"
    using n by (simp add: decryptText_makeBlob [OF iv l'] tag_def [symmetric])
  then show ?thesis by (simp add: tamperTag_def f)
qed

lemma example_decrypt:
  "toWellFormed s = s \<Longrightarrow> decryptText examplePrims (exampleBlob s) (js ''secret'') = Inr s"
  by (simp add: exampleBlob_def decryptText_encryptText)

lemma example_corrupted:
  "decryptText examplePrims (tamperTag 0 1 (exampleBlob s)) (js ''secret'') = Inl AuthenticationError"
  by (simp add: exampleBlob_def tampered_tag_rejected)

lemma js_eq_Nil: "(js s = []) = (s = [])"
  by (simp add: js_def)

lemma example_dates:
  "utf8_encode (js ''2024-01-01'') = [50, 48, 50, 52, 45, 48, 49, 45, 48, 49]"
  "utf8_encode (js ''2024-01-02'') = [50, 48, 50, 52, 45, 48, 49, 45, 48, 50]"
  "utf8_encode (js ''2024-01-03'') = [50, 48, 50, 52, 45, 48, 49, 45, 48, 51]"
  by (simp_all add: utf8_encode_def js_def isHigh_def isLow_def encode_cp_def)

text \<open>
  Three stored entries, the second with a byte of the tag of its content flipped: all
  three are listed, newest first, the second with the placeholders.
\<close>

theorem diary_getAll_batch_witness:
  "diary_getAll examplePrims
     (exampleState
        [exampleEntry (js ''e1'') (js ''2024-01-01'') (exampleBlob (js ''Monday'')) (exampleBlob (js ''rain'')),
         exampleEntry (js ''e2'') (js ''2024-01-02'') (exampleBlob (js ''Tuesday''))
           (tamperTag 0 1 (exampleBlob (js ''sun''))),
         exampleEntry (js ''e3'') (js ''2024-01-03'') (exampleBlob (js ''Wednesday'')) (exampleBlob (js ''wind''))]
        [js ''u1'' \<mapsto> js ''secret'']) (js ''u1'')
     = Inr [exampleEntry (js ''e3'') (js ''2024-01-03'') (js ''Wednesday'') (js ''wind''),
            exampleEntry (js ''e2'') (js ''2024-01-02'') TITLE_PLACEHOLDER CONTENT_PLACEHOLDER,
            exampleEntry (js ''e1'') (js ''2024-01-01'') (js ''Monday'') (js ''rain'')]"
proof -
  define e1 where "e1 = exampleEntry (js ''e1'') (js ''2024-01-01'') (exampleBlob (js ''Monday'')) (exampleBlob (js ''rain''))"
  define e2 where "e2 = exampleEntry (js ''e2'') (js ''2024-01-02'') (exampleBlob (js ''Tuesday''))
    (tamperTag 0 1 (exampleBlob (js ''sun'')))"
  define e3 where "e3 = exampleEntry (js ''e3'') (js ''2024-01-03'') (exampleBlob (js ''Wednesday'')) (exampleBlob (js ''wind''))"
  define st where "st = exampleState [e1, e2, e3] [js ''u1'' \<mapsto> js ''secret'']"
  have key: "getUserEncryptionKey (st_keys st) (js ''u1'') = Some (js ''secret'')"
    by (simp add: st_def exampleState_def getUserEncryptionKey_def)
  have ne: "js ''secret'' \<noteq> []" by (simp add: js_def)
  have stored: "getDiaryEntries (st_db st) (js ''u1'') = [e3, e2, e1]"
    by (simp add: getDiaryEntries_def st_def exampleState_def e1_def e2_def e3_def exampleEntry_def
        orderByDesc_def example_dates orElse_def js_eq_Nil)
  have wf: "toWellFormed (js ''Monday'') = js ''Monday''" "toWellFormed (js ''rain'') = js ''rain''"
    "toWellFormed (js ''Tuesday'') = js ''Tuesday''"
    "toWellFormed (js ''Wednesday'') = js ''Wednesday''" "toWellFormed (js ''wind'') = js ''wind''"
    by (simp_all add: js_def isHigh_def isLow_def)
  from diary_getAll_batch [OF key ne, of examplePrims]
  obtain result where r: "diary_getAll examplePrims st (js ''u1'') = Inr result"
    and l: "length result
        = length (filter (\<lambda>entry. entry_userId entry = js ''u1'') (diary_entries (st_db st)))"
    and n: "\<forall>i<length result. result ! i =
        (let entry = getDiaryEntries (st_db st) (js ''u1'') ! i
         in case decryptText examplePrims (entry_title entry) (js ''secret'') of
              Inl e \<Rightarrow> entry\<lparr>entry_title := TITLE_PLACEHOLDER, entry_content := CONTENT_PLACEHOLDER\<rparr>
            | Inr t \<Rightarrow>
                (case decryptText examplePrims (entry_content entry) (js ''secret'') of
                   Inl e \<Rightarrow> entry\<lparr>entry_title := TITLE_PLACEHOLDER,
                                   entry_content := CONTENT_PLACEHOLDER\<rparr>
                 | Inr c \<Rightarrow> entry\<lparr>entry_title := t, entry_content := c\<rparr>))"
    by blast
  have l3: "length result = 3"
    using l by (simp add: st_def exampleState_def e1_def e2_def e3_def exampleEntry_def)
  have r0: "result ! 0 = exampleEntry (js ''e3'') (js ''2024-01-03'') (js ''Wednesday'') (js ''wind'')"
    using n l3 by (simp add: stored e3_def exampleEntry_def example_decrypt wf)
  have r1: "result ! 1 = exampleEntry (js ''e2'') (js ''2024-01-02'') TITLE_PLACEHOLDER CONTENT_PLACEHOLDER"
    using n l3 by (simp add: stored e2_def exampleEntry_def example_decrypt example_corrupted wf)
  have r2: "result ! 2 = exampleEntry (js ''e1'') (js ''2024-01-01'') (js ''Monday'') (js ''rain'')"
    using n l3 by (simp add: stored e1_def exampleEntry_def example_decrypt wf)
  have "result = [result ! 0, result ! 1, result ! 2]"
    using l3 by (auto simp: list_eq_iff_nth_eq nth_Cons' numeral_eq_Suc less_Suc_eq)
  with r r0 r1 r2 show ?thesis unfolding st_def e1_def e2_def e3_def by simp
qed


text \<open>
  Claim C3 as stated fails for a user whose cached key is the empty string: the guard
  \<^verbatim>\<open>if (!userPassword)\<close> takes it for a missing key, and the listing is refused.
\<close>

theorem diary_getAll_batch_counterexample:
  "getUserEncryptionKey
     (st_keys (exampleState [exampleEntry (js ''e1'') (js ''2024-01-01'')
                               (exampleBlob (js ''Monday'')) (exampleBlob (js ''rain''))]
                 [js ''u1'' \<mapsto> []])) (js ''u1'') = Some [] \<and>
   diary_getAll examplePrims
     (exampleState [exampleEntry (js ''e1'') (js ''2024-01-01'')
                      (exampleBlob (js ''Monday'')) (exampleBlob (js ''rain''))]
        [js ''u1'' \<mapsto> []]) (js ''u1'')
     = Inl NotAuthenticatedError"
  by (simp add: diary_getAll_def getUserEncryptionKey_def exampleState_def)

subsection \<open>Logging in\<close>

lemma messages_differ: "USER_NOT_FOUND \<noteq> WRONG_PASSWORD"
  by (simp add: USER_NOT_FOUND_def WRONG_PASSWORD_def)

text \<open>
  Claim C4 (as amended). A login with an email that matches no account fails with the
  message \<open>USER_NOT_FOUND\<close>; a login with the email of an account and a password that
  does not verify fails with the message \<open>WRONG_PASSWORD\<close>. The two messages differ,
  so the answer tells which of the two did not match. A failed login gives one of
  these two messages and leaves the state, the session keys among it, as it was.
\<close>

theorem login_failure_messages:
  "(getUserByEmail (st_db st) email = None \<longrightarrow>
      auth_login P st email password
        = (\<lparr>success = False, token = None, error_message = Some USER_NOT_FOUND\<rparr>, st)) \<and>
   (\<forall>user. getUserByEmail (st_db st) email = Some user
        \<and> \<not> verifyPassword P password (user_password_hash user) \<longrightarrow>
      auth_login P st email password
        = (\<lparr>success = False, token = None, error_message = Some WRONG_PASSWORD\<rparr>, st)) \<and>
   (\<not> success (fst (auth_login P st email password)) \<longrightarrow>
      snd (auth_login P st email password) = st \<and>
      (error_message (fst (auth_login P st email password)) = Some USER_NOT_FOUND
       \<or> error_message (fst (auth_login P st email password)) = Some WRONG_PASSWORD)) \<and>
   USER_NOT_FOUND \<noteq> WRONG_PASSWORD"
proof (intro conjI allI impI)
  assume "getUserByEmail (st_db st) email = None"
  then show "auth_login P st email password
      = (\<lparr>success = False, token = None, error_message = Some USER_NOT_FOUND\<rparr>, st)"
    by (simp add: auth_login_def)
next
  fix user
  assume "getUserByEmail (st_db st) email = Some user
    \<and> \<not> verifyPassword P password (user_password_hash user)"
  then show "auth_login P st email password
      = (\<lparr>success = False, token = None, error_message = Some WRONG_PASSWORD\<rparr>, st)"
    by (simp add: auth_login_def)
next
  assume failed: "\<not> success (fst (auth_login P st email password))"
  show "snd (auth_login P st email password) = st"
  proof (cases "getUserByEmail (st_db st) email")
    case None
    then show ?thesis by (simp add: auth_login_def)
  next
    case (Some user)
    with failed show ?thesis by (simp add: auth_login_def split: if_splits)
  qed
  show "error_message (fst (auth_login P st email password)) = Some USER_NOT_FOUND
       \<or> error_message (fst (auth_login P st email password)) = Some WRONG_PASSWORD"
  proof (cases "getUserByEmail (st_db st) email")
    case None
    then show ?thesis by (simp add: auth_login_def)
  next
    case (Some user)
    with failed show ?thesis by (simp add: auth_login_def split: if_splits)
  qed
next
  show "USER_NOT_FOUND \<noteq> WRONG_PASSWORD" by (rule messages_differ)
qed

lemma example_wrong_password:
  "\<not> verifyPassword examplePrims (js ''Secret'')
       (fst (hashPassword examplePrims exampleEntropy (js ''secret'')))"
proof -
  define salt where "salt = utf8_encode (toHex (fst (randomBytes 16 exampleEntropy)))"
  have "hd (pbkdf2Sync examplePrims (utf8_encode (js ''Secret'')) salt ITERATIONS 64)
      \<noteq> hd (pbkdf2Sync examplePrims (utf8_encode (js ''secret'')) salt ITERATIONS 64)"
    by (simp add: example_pbkdf2_hd utf8_secret utf8_Secret)
  then have "pbkdf2Sync examplePrims (utf8_encode (js ''Secret'')) salt ITERATIONS 64
      \<noteq> pbkdf2Sync examplePrims (utf8_encode (js ''secret'')) salt ITERATIONS 64"
    by metis
  then show ?thesis unfolding verifyPassword_hashPassword salt_def .
qed

lemma example_getUserByEmail:
  "getUserByEmail (st_db (exampleState entries userKeys)) (js ''alice@example.org'') = Some exampleUser"
  "getUserByEmail (st_db (exampleState entries userKeys)) (js ''bob@example.org'') = None"
  by (simp_all add: getUserByEmail_def exampleState_def exampleUser_def js_def)

theorem login_failure_messages_witness:
  "auth_login examplePrims (exampleState [] Map.empty) (js ''bob@example.org'') (js ''secret'')
     = (\<lparr>success = False, token = None, error_message = Some USER_NOT_FOUND\<rparr>,
        exampleState [] Map.empty) \<and>
   auth_login examplePrims (exampleState [] Map.empty) (js ''alice@example.org'') (js ''Secret'')
     = (\<lparr>success = False, token = None, error_message = Some WRONG_PASSWORD\<rparr>,
        exampleState [] Map.empty)"
proof -
  have w: "\<not> verifyPassword examplePrims (js ''Secret'') (user_password_hash exampleUser)"
    using example_wrong_password by (simp add: exampleUser_def)
  show ?thesis
    using w example_getUserByEmail [of "[]" Map.empty]
      login_failure_messages [of "exampleState [] Map.empty" "js ''bob@example.org''" examplePrims
        "js ''secret''"]
      login_failure_messages [of "exampleState [] Map.empty" "js ''alice@example.org''" examplePrims
        "js ''Secret''"]
    by simp
qed

text \<open>
  Claim C4 as stated fails: the error of a login with an unknown email is not the error
  of a login with a wrong password.
\<close>

theorem login_failure_messages_counterexample:
  "error_message (fst (auth_login examplePrims (exampleState [] Map.empty)
       (js ''bob@example.org'') (js ''secret'')))
     \<noteq> error_message (fst (auth_login examplePrims (exampleState [] Map.empty)
       (js ''alice@example.org'') (js ''Secret'')))"
proof -
  have w: "\<not> verifyPassword examplePrims (js ''Secret'') (user_password_hash exampleUser)"
    using example_wrong_password by (simp add: exampleUser_def)
  show ?thesis
    using w by (simp add: auth_login_def example_getUserByEmail messages_differ)
qed

subsection \<open>After the key is cleared\<close>

text \<open>
  Claim C10. Once \<open>clearUserEncryptionKey\<close> has removed the key of a user, every
  request that decrypts for that user fails with \<open>NotAuthenticatedError\<close>, whatever the
  store and the files hold: the three listings and \<^verbatim>\<open>file:open\<close> throw it, and the
  export, once a directory is chosen, answers with its message and exports nothing.
\<close>

theorem no_key_no_decryption:
  "getUserEncryptionKey (clearUserEncryptionKey (st_keys st) userId) userId = None \<and>
   diary_getAll P (st\<lparr>st_keys := clearUserEncryptionKey (st_keys st) userId\<rparr>) userId
     = Inl NotAuthenticatedError \<and>
   media_getAll P (st\<lparr>st_keys := clearUserEncryptionKey (st_keys st) userId\<rparr>) userId
     = Inl NotAuthenticatedError \<and>
   file_getAll P (st\<lparr>st_keys := clearUserEncryptionKey (st_keys st) userId\<rparr>) userId
     = Inl NotAuthenticatedError \<and>
   file_open P (st\<lparr>st_keys := clearUserEncryptionKey (st_keys st) userId\<rparr>) tempPath
       encryptedPath userId
     = (Inl NotAuthenticatedError, st\<lparr>st_keys := clearUserEncryptionKey (st_keys st) userId\<rparr>) \<and>
   database_exportForAI exportRecords
       (st\<lparr>st_keys := clearUserEncryptionKey (st_keys st) userId\<rparr>) True (Some baseDir) userId
     = (ExportFailed NOT_AUTHENTICATED_FOR_DECRYPTION,
        st\<lparr>st_keys := clearUserEncryptionKey (st_keys st) userId\<rparr>)"
proof -
  define st' where "st' = st\<lparr>st_keys := clearUserEncryptionKey (st_keys st) userId\<rparr>"
  have k: "getUserEncryptionKey (st_keys st') userId = None"
    by (simp add: st'_def getUserEncryptionKey_def clearUserEncryptionKey_def)
  have "diary_getAll P st' userId = Inl NotAuthenticatedError"
    by (simp add: diary_getAll_def k)
  moreover have "media_getAll P st' userId = Inl NotAuthenticatedError"
    by (simp add: media_getAll_def k)
  moreover have "file_getAll P st' userId = Inl NotAuthenticatedError"
    by (simp add: file_getAll_def k)
  moreover have "file_open P st' tempPath encryptedPath userId = (Inl NotAuthenticatedError, st')"
    by (simp add: file_open_def k)
  moreover have "database_exportForAI exportRecords st' True (Some baseDir) userId
      = (ExportFailed NOT_AUTHENTICATED_FOR_DECRYPTION, st')"
    by (simp add: database_exportForAI_def k)
  ultimately show ?thesis
    unfolding st'_def by (simp add: getUserEncryptionKey_def clearUserEncryptionKey_def)
qed


theorem no_key_no_decryption_witness:
  "decryptText examplePrims (exampleBlob (js ''Monday'')) (js ''secret'') = Inr (js ''Monday'') \<and>
   diary_getAll examplePrims
     ((exampleState [exampleEntry (js ''e1'') (js ''2024-01-01'')
                      (exampleBlob (js ''Monday'')) (exampleBlob (js ''rain''))]
        [js ''u1'' \<mapsto> js ''secret''])
      \<lparr>st_keys := clearUserEncryptionKey [js ''u1'' \<mapsto> js ''secret''] (js ''u1'')\<rparr>) (js ''u1'')
     = Inl NotAuthenticatedError"
proof -
  have "toWellFormed (js ''Monday'') = js ''Monday''" by (simp add: js_def isHigh_def isLow_def)
  then have d: "decryptText examplePrims (exampleBlob (js ''Monday'')) (js ''secret'') = Inr (js ''Monday'')"
    by (simp add: exampleBlob_def decryptText_encryptText)
  have k: "st_keys (exampleState es ks) = ks" for es ks by (simp add: exampleState_def)
  note n = no_key_no_decryption [where P = examplePrims and userId = "js ''u1''"
      and st = "exampleState [exampleEntry (js ''e1'') (js ''2024-01-01'')
           (exampleBlob (js ''Monday'')) (exampleBlob (js ''rain''))] [js ''u1'' \<mapsto> js ''secret'']",
      THEN conjunct2, THEN conjunct1]
  show ?thesis using d n by (simp add: k)
qed

section \<open>Ciphertext at rest\<close>

lemma isEncryptedBlob_encryptText: "isEncryptedBlob (fst (encryptText P rnd s p))"
  unfolding isEncryptedBlob_def blobFields_encryptText
  by (simp add: encryptText_makeBlob generateSalt_length randomBytes_length getAuthTag_length
      TAG_LENGTH_def)

lemma isEncryptedBlob_encryptText': "encryptText P rnd s p = (blob, rnd') \<Longrightarrow> isEncryptedBlob blob"
  using isEncryptedBlob_encryptText [of P rnd s p] by simp

lemma ciphertextAtRest_iff:
  "ciphertextAtRest db = ((\<forall>entry \<in> set (diary_entries db). entryEncrypted entry)
      \<and> (\<forall>item \<in> set (files db). itemEncrypted item))"
  by (simp add: ciphertextAtRest_def list_all_iff)

lemma saveDiaryEntry_keeps:
  assumes "ciphertextAtRest db" "entryEncrypted entry" "saveDiaryEntry db uuid entry = Inr (i, db')"
  shows "ciphertextAtRest db'"
  using assms
  by (auto simp: saveDiaryEntry_def ciphertextAtRest_iff entryEncrypted_def split: if_splits)

lemma updateDiaryEntry_keeps:
  assumes "ciphertextAtRest db" "isEncryptedBlob (upd_title entry)" "isEncryptedBlob (upd_content entry)"
    and "updateDiaryEntry db now i entry = Inr db'"
  shows "ciphertextAtRest db'"
  using assms
  by (auto simp: updateDiaryEntry_def ciphertextAtRest_iff entryEncrypted_def Let_def split: if_splits)

lemma deleteDiaryEntry_keeps: "ciphertextAtRest db \<Longrightarrow> ciphertextAtRest (deleteDiaryEntry db i)"
  by (auto simp: deleteDiaryEntry_def ciphertextAtRest_iff)

lemma saveFileItem_keeps:
  assumes "ciphertextAtRest db" "itemEncrypted item" "saveFileItem db uuid now item = Inr (i, db')"
  shows "ciphertextAtRest db'"
  using assms
  by (auto simp: saveFileItem_def ciphertextAtRest_iff itemEncrypted_def Let_def split: if_splits)

lemma updateFileItem_keeps:
  assumes "ciphertextAtRest db" "meta_title metadata = Some t" "isEncryptedBlob t"
    and "updateFileItem db i metadata = Inr db'"
  shows "ciphertextAtRest db'"
  using assms
  by (auto simp: updateFileItem_def ciphertextAtRest_iff itemEncrypted_def split: if_splits)

lemma deleteFileItem_keeps: "ciphertextAtRest db \<Longrightarrow> ciphertextAtRest (deleteFileItem db i)"
  by (auto simp: deleteFileItem_def ciphertextAtRest_iff)

lemma updateFileItemDate_keeps: "ciphertextAtRest db \<Longrightarrow> ciphertextAtRest (updateFileItemDate db i d)"
  by (auto simp: updateFileItemDate_def ciphertextAtRest_iff itemEncrypted_def)

lemma createUser_keeps:
  "ciphertextAtRest db \<Longrightarrow> createUser db uuid now email h name = Inr (i, db') \<Longrightarrow> ciphertextAtRest db'"
  by (auto simp: createUser_def ciphertextAtRest_iff split: if_splits)

lemma auth_login_db: "st_db (snd (auth_login P st email password)) = st_db st"
  by (simp add: auth_login_def split: option.splits)

lemma auth_register_keeps:
  "ciphertextAtRest (st_db st) \<Longrightarrow> ciphertextAtRest (st_db (snd (auth_register P st uuid now email password name)))"
  by (auto simp: auth_register_def split: option.splits prod.splits sum.splits dest: createUser_keeps)

lemma diary_save_keeps:
  assumes "ciphertextAtRest (st_db st)"
  shows "ciphertextAtRest (st_db (snd (diary_save P st uuid entry)))"
proof (cases "getUserEncryptionKey (st_keys st) (entry_userId entry)")
  case None
  with assms show ?thesis by (simp add: diary_save_def)
next
  case (Some pw)
  show ?thesis
  proof (cases "pw = []")
    case True
    with Some assms show ?thesis by (simp add: diary_save_def)
  next
    case False
    obtain t r1 where t: "encryptText P (st_rnd st) (entry_title entry) pw = (t, r1)"
      by (cases "encryptText P (st_rnd st) (entry_title entry) pw")
    obtain c r2 where c: "encryptText P r1 (entry_content entry) pw = (c, r2)"
      by (cases "encryptText P r1 (entry_content entry) pw")
    have ok: "entryEncrypted (entry\<lparr>entry_title := t, entry_content := c\<rparr>)"
      using isEncryptedBlob_encryptText' [OF t] isEncryptedBlob_encryptText' [OF c]
      by (simp add: entryEncrypted_def)
    show ?thesis
      using Some False t c assms saveDiaryEntry_keeps [OF assms ok]
      by (auto simp: diary_save_def Let_def split: sum.splits)
  qed
qed

lemma diary_update_keeps:
  assumes "ciphertextAtRest (st_db st)"
  shows "ciphertextAtRest (st_db (snd (diary_update P st now i entry userId)))"
proof (cases "getUserEncryptionKey (st_keys st) userId")
  case None
  with assms show ?thesis by (simp add: diary_update_def)
next
  case (Some pw)
  show ?thesis
  proof (cases "pw = []")
    case True
    with Some assms show ?thesis by (simp add: diary_update_def)
  next
    case False
    obtain t r1 where t: "encryptText P (st_rnd st) (edit_title entry) pw = (t, r1)"
      by (cases "encryptText P (st_rnd st) (edit_title entry) pw")
    obtain c r2 where c: "encryptText P r1 (edit_content entry) pw = (c, r2)"
      by (cases "encryptText P r1 (edit_content entry) pw")
    define e where "e = \<lparr>upd_title = t, upd_content = c, upd_entryMode = edit_entryMode entry,
      upd_linkedItemId = edit_linkedItemId entry, upd_createdAt = edit_customDate entry\<rparr>"
    have ok: "isEncryptedBlob (upd_title e)" "isEncryptedBlob (upd_content e)"
      using isEncryptedBlob_encryptText' [OF t] isEncryptedBlob_encryptText' [OF c]
      by (simp_all add: e_def)
    show ?thesis
      using Some False t c assms updateDiaryEntry_keeps [OF assms ok]
      by (auto simp: diary_update_def Let_def e_def split: sum.splits)
  qed
qed


lemma save_result_keeps:
  assumes "ciphertextAtRest (st_db st)" "itemEncrypted item" "st_db st' = st_db st"
  shows "ciphertextAtRest (st_db (snd (case saveFileItem (st_db st) uuid now item of
            Inl e \<Rightarrow> (Inl e, st')
          | Inr (i, db') \<Rightarrow> (Inr (f i), st'\<lparr>st_db := db'\<rparr>))))"
  using assms saveFileItem_keeps [OF assms(1,2)]
  by (auto split: sum.splits)

lemma media_upload_keeps:
  assumes "ciphertextAtRest (st_db st)"
  shows "ciphertextAtRest (st_db (snd (media_upload P st hasWindow choice uuid now type userId)))"
proof (cases "getUserById (st_db st) userId")
  case None
  with assms show ?thesis by (simp add: media_upload_def)
next
  case user: (Some user)
  show ?thesis
  proof (cases "getUserEncryptionKey (st_keys st) userId")
    case None
    with user assms show ?thesis by (simp add: media_upload_def)
  next
    case key: (Some pw)
    show ?thesis
    proof (cases "pw = [] \<or> \<not> hasWindow")
      case True
      with user key assms show ?thesis by (auto simp: media_upload_def)
    next
      case go: False
      show ?thesis
      proof (cases "handleFileUpload (st_fs st) choice")
        case (Pair picked fs0)
        show ?thesis
        proof (cases picked)
          case None
          with user key go Pair assms show ?thesis by (simp add: media_upload_def)
        next
          case (Some result)
          obtain r1 fs1 rnd1 where e: "encryptFile P (st_rnd st) fs0 (up_path result)
              (up_path result @ js ''.enc'') pw = (r1, fs1, rnd1)"
            by (cases "encryptFile P (st_rnd st) fs0 (up_path result) (up_path result @ js ''.enc'') pw")
          show ?thesis
          proof (cases r1)
            case (Inl err)
            with user key go Pair Some e assms show ?thesis by (simp add: media_upload_def)
          next
            case (Inr u)
            obtain t rnd2 where t: "encryptText P rnd1 (uploadTitle result) pw = (t, rnd2)"
              by (cases "encryptText P rnd1 (uploadTitle result) pw")
            define item where "item =
              \<lparr>file_id = [], file_userId = user_id user, file_name = t,
               file_path = up_path result @ js ''.enc'', file_type = type, file_createdAt = now,
               file_metadata = \<lparr>meta_title = Some t, meta_uploadedAt = Some now,
                 meta_description = None\<rparr>\<rparr>"
            have ok: "itemEncrypted item"
              using isEncryptedBlob_encryptText' [OF t] by (simp add: itemEncrypted_def item_def)
            show ?thesis
              using user key go Pair Some e Inr t
                save_result_keeps [OF assms ok, of "st\<lparr>st_fs := fs1(up_path result := None), st_rnd := rnd2\<rparr>"]
              by (simp add: media_upload_def saveMediaItem_def Let_def item_def)
          qed
        qed
      qed
    qed
  qed
qed

lemma file_upload_keeps:
  assumes "ciphertextAtRest (st_db st)"
  shows "ciphertextAtRest (st_db (snd (file_upload P st hasWindow choice uuid now userId)))"
proof (cases "getUserById (st_db st) userId")
  case None
  with assms show ?thesis by (simp add: file_upload_def)
next
  case user: (Some user)
  show ?thesis
  proof (cases "getUserEncryptionKey (st_keys st) userId")
    case None
    with user assms show ?thesis by (simp add: file_upload_def)
  next
    case key: (Some pw)
    show ?thesis
    proof (cases "pw = [] \<or> \<not> hasWindow")
      case True
      with user key assms show ?thesis by (auto simp: file_upload_def)
    next
      case go: False
      show ?thesis
      proof (cases "handleFileUpload (st_fs st) choice")
        case (Pair picked fs0)
        show ?thesis
        proof (cases picked)
          case None
          with user key go Pair assms show ?thesis by (simp add: file_upload_def)
        next
          case (Some result)
          obtain r1 fs1 rnd1 where e: "encryptFile P (st_rnd st) fs0 (up_path result)
              (up_path result @ js ''.enc'') pw = (r1, fs1, rnd1)"
            by (cases "encryptFile P (st_rnd st) fs0 (up_path result) (up_path result @ js ''.enc'') pw")
          show ?thesis
          proof (cases r1)
            case (Inl err)
            with user key go Pair Some e assms show ?thesis by (simp add: file_upload_def)
          next
            case (Inr u)
            obtain t rnd2 where t: "encryptText P rnd1 (uploadTitle result) pw = (t, rnd2)"
              by (cases "encryptText P rnd1 (uploadTitle result) pw")
            define item where "item =
              \<lparr>file_id = [], file_userId = user_id user, file_name = up_name result,
               file_path = up_path result @ js ''.enc'', file_type = up_type result,
               file_createdAt = now,
               file_metadata = \<lparr>meta_title = Some t, meta_uploadedAt = Some now,
                 meta_description = None\<rparr>\<rparr>"
            have ok: "itemEncrypted item"
              using isEncryptedBlob_encryptText' [OF t] by (simp add: itemEncrypted_def item_def)
            show ?thesis
              using user key go Pair Some e Inr t
                save_result_keeps [OF assms ok, of "st\<lparr>st_fs := fs1(up_path result := None), st_rnd := rnd2\<rparr>"]
              by (simp add: file_upload_def Let_def item_def)
          qed
        qed
      qed
    qed
  qed
qed


lemma updateMetadata_keeps:
  assumes "ciphertextAtRest (st_db st)"
  shows "ciphertextAtRest (st_db (snd (updateMetadata P st i metadata userId)))"
proof (cases "getUserEncryptionKey (st_keys st) userId")
  case None
  with assms show ?thesis by (simp add: updateMetadata_def)
next
  case key: (Some pw)
  show ?thesis
  proof (cases "pw = []")
    case True
    with key assms show ?thesis by (simp add: updateMetadata_def)
  next
    case ne: False
    show ?thesis
    proof (cases "meta_title metadata")
      case None
      with key ne assms show ?thesis by (simp add: updateMetadata_def)
    next
      case (Some title)
      obtain t rnd' where t: "encryptText P (st_rnd st) title pw = (t, rnd')"
        by (cases "encryptText P (st_rnd st) title pw")
      have m: "meta_title (metadata\<lparr>meta_title := Some t\<rparr>) = Some t" by simp
      show ?thesis
        using key ne Some t assms
          updateFileItem_keeps [OF assms m isEncryptedBlob_encryptText' [OF t]]
        by (auto simp: updateMetadata_def Let_def split: sum.splits)
    qed
  qed
qed

lemma file_open_db: "st_db (snd (file_open P st tempPath encryptedPath userId)) = st_db st"
  by (simp add: file_open_def split: option.splits prod.splits sum.splits)

lemma handle_keeps:
  "ciphertextAtRest (st_db st) \<Longrightarrow> ciphertextAtRest (st_db (handle P st req))"
proof (cases req)
  case (Login email password)
  assume "ciphertextAtRest (st_db st)"
  with Login show ?thesis by (simp add: auth_login_db)
next
  case (Register uuid now email password name)
  assume "ciphertextAtRest (st_db st)"
  with Register show ?thesis by (simp add: auth_register_keeps)
next
  case (Logout userId)
  assume "ciphertextAtRest (st_db st)"
  with Logout show ?thesis by (simp add: auth_logout_def)
next
  case (DiarySave uuid entry)
  assume "ciphertextAtRest (st_db st)"
  with DiarySave show ?thesis by (simp add: diary_save_keeps)
next
  case (DiaryUpdate now i entry userId)
  assume "ciphertextAtRest (st_db st)"
  with DiaryUpdate show ?thesis by (simp add: diary_update_keeps)
next
  case (DiaryDelete i)
  assume "ciphertextAtRest (st_db st)"
  with DiaryDelete show ?thesis by (simp add: diary_delete_def deleteDiaryEntry_keeps)
next
  case (MediaUpload hasWindow choice uuid now type userId)
  assume "ciphertextAtRest (st_db st)"
  with MediaUpload show ?thesis by (simp add: media_upload_keeps)
next
  case (FileUpload hasWindow choice uuid now userId)
  assume "ciphertextAtRest (st_db st)"
  with FileUpload show ?thesis by (simp add: file_upload_keeps)
next
  case (MediaUpdateMetadata i metadata userId)
  assume "ciphertextAtRest (st_db st)"
  with MediaUpdateMetadata show ?thesis by (simp add: media_updateMetadata_def updateMetadata_keeps)
next
  case (FileUpdateMetadata i metadata userId)
  assume "ciphertextAtRest (st_db st)"
  with FileUpdateMetadata show ?thesis by (simp add: file_updateMetadata_def updateMetadata_keeps)
next
  case (MediaUpdateDate i date)
  assume "ciphertextAtRest (st_db st)"
  with MediaUpdateDate show ?thesis by (simp add: updateDate_def updateFileItemDate_keeps)
next
  case (FileUpdateDate i date)
  assume "ciphertextAtRest (st_db st)"
  with FileUpdateDate show ?thesis by (simp add: updateDate_def updateFileItemDate_keeps)
next
  case (MediaDelete i)
  assume "ciphertextAtRest (st_db st)"
  with MediaDelete show ?thesis by (simp add: media_delete_def deleteMediaItem_def deleteFileItem_keeps)
next
  case (FileDelete i)
  assume "ciphertextAtRest (st_db st)"
  with FileDelete show ?thesis by (simp add: file_delete_def deleteFileItem_keeps)
next
  case (FileOpen tempPath encryptedPath userId)
  assume "ciphertextAtRest (st_db st)"
  with FileOpen show ?thesis by (simp add: file_open_db)
qed

lemma run_keeps:
  "ciphertextAtRest (st_db st) \<Longrightarrow> ciphertextAtRest (st_db (foldl (handle P) st reqs))"
  by (induction reqs arbitrary: st) (simp_all add: handle_keeps)

lemma initialState_ok: "ciphertextAtRest (st_db (initialState fs rnd))"
  by (simp add: initialState_def ciphertextAtRest_def)

text \<open>What the write handlers store is what \<open>encryptText\<close> returns.\<close>

lemma diary_save_stores:
  assumes "getUserEncryptionKey (st_keys st) (entry_userId entry) = Some pw" "pw \<noteq> []"
    and "diary_save P st uuid entry = (Inr i, st')"
  shows "diary_entries (st_db st') = diary_entries (st_db st) @
      [entry\<lparr>entry_id := uuid,
             entry_title := fst (encryptText P (st_rnd st) (entry_title entry) pw),
             entry_content := fst (encryptText P (snd (encryptText P (st_rnd st) (entry_title entry) pw))
                                     (entry_content entry) pw),
             entry_linkedItemId := orElse (entry_linkedItemId entry) None\<rparr>]"
  using assms
  by (auto simp: diary_save_def saveDiaryEntry_def Let_def split: prod.splits sum.splits if_splits)

text \<open>
  Claim C7. Every request keeps the store at ciphertext at rest: if the title and the
  content of every stored diary entry and the \<^verbatim>\<open>metadata.title\<close> of every stored file
  record are encrypted blobs before a request, they are after it; so they are in every
  state reached from the empty store. A diary entry that \<^verbatim>\<open>diary:save\<close> stores holds,
  for title and content, what \<open>encryptText\<close> returned for them.
\<close>

theorem ciphertext_at_rest:
  "(ciphertextAtRest (st_db st) \<longrightarrow> ciphertextAtRest (st_db (handle P st req))) \<and>
   ciphertextAtRest (st_db (foldl (handle P) (initialState fs rnd) reqs)) \<and>
   (\<forall>pw i st'. getUserEncryptionKey (st_keys st) (entry_userId entry) = Some pw \<and> pw \<noteq> []
        \<and> diary_save P st uuid entry = (Inr i, st') \<longrightarrow>
      diary_entries (st_db st') = diary_entries (st_db st) @
        [entry\<lparr>entry_id := uuid,
               entry_title := fst (encryptText P (st_rnd st) (entry_title entry) pw),
               entry_content :=
                 fst (encryptText P (snd (encryptText P (st_rnd st) (entry_title entry) pw))
                        (entry_content entry) pw),
               entry_linkedItemId := orElse (entry_linkedItemId entry) None\<rparr>])"
proof (intro conjI allI impI)
  assume "ciphertextAtRest (st_db st)"
  then show "ciphertextAtRest (st_db (handle P st req))" by (rule handle_keeps)
next
  show "ciphertextAtRest (st_db (foldl (handle P) (initialState fs rnd) reqs))"
    by (rule run_keeps [OF initialState_ok])
next
  fix pw i st'
  assume "getUserEncryptionKey (st_keys st) (entry_userId entry) = Some pw \<and> pw \<noteq> []
    \<and> diary_save P st uuid entry = (Inr i, st')"
  then show "diary_entries (st_db st') = diary_entries (st_db st) @
      [entry\<lparr>entry_id := uuid,
             entry_title := fst (encryptText P (st_rnd st) (entry_title entry) pw),
             entry_content :=
               fst (encryptText P (snd (encryptText P (st_rnd st) (entry_title entry) pw))
                      (entry_content entry) pw),
             entry_linkedItemId := orElse (entry_linkedItemId entry) None\<rparr>]"
    using diary_save_stores [of st entry pw P uuid i st'] by blast
qed

theorem ciphertext_at_rest_witness:
  "ciphertextAtRest (st_db (exampleState [] [js ''u1'' \<mapsto> js ''secret''])) \<and>
   ciphertextAtRest (st_db (handle examplePrims (exampleState [] [js ''u1'' \<mapsto> js ''secret''])
      (DiarySave (js ''e1'') (exampleEntry [] (js ''2024-01-01'') (js ''Monday'') (js ''rain''))))) \<and>
   diary_entries (st_db (handle examplePrims (exampleState [] [js ''u1'' \<mapsto> js ''secret''])
      (DiarySave (js ''e1'') (exampleEntry [] (js ''2024-01-01'') (js ''Monday'') (js ''rain'')))))
     = [exampleEntry (js ''e1'') (js ''2024-01-01'')
          (fst (encryptText examplePrims exampleEntropy (js ''Monday'') (js ''secret'')))
          (fst (encryptText examplePrims
                  (snd (encryptText examplePrims exampleEntropy (js ''Monday'') (js ''secret'')))
                  (js ''rain'') (js ''secret'')))]"
proof -
  define st where "st = exampleState [] [js ''u1'' \<mapsto> js ''secret'']"
  define entry where "entry = exampleEntry [] (js ''2024-01-01'') (js ''Monday'') (js ''rain'')"
  have inv: "ciphertextAtRest (st_db st)"
    by (simp add: st_def exampleState_def ciphertextAtRest_def)
  have key: "getUserEncryptionKey (st_keys st) (entry_userId entry) = Some (js ''secret'')"
    by (simp add: st_def entry_def exampleState_def exampleEntry_def getUserEncryptionKey_def)
  have ne: "js ''secret'' \<noteq> []" by (simp add: js_eq_Nil)
  obtain r st' where d: "diary_save examplePrims st (js ''e1'') entry = (r, st')"
    by (cases "diary_save examplePrims st (js ''e1'') entry")
  have "r = Inr (js ''e1'')"
    using d key ne
    by (auto simp: diary_save_def saveDiaryEntry_def Let_def st_def exampleState_def entry_def
        exampleEntry_def diary_types_def entry_modes_def split: prod.splits)
  with d have d': "diary_save examplePrims st (js ''e1'') entry = (Inr (js ''e1''), st')" by simp
  note c = ciphertext_at_rest [where P = examplePrims and st = st and req = "DiarySave (js ''e1'') entry"
      and entry = entry and uuid = "js ''e1''" and fs = Map.empty and rnd = exampleEntropy
      and reqs = "[]"]
  from c inv have 1: "ciphertextAtRest (st_db (handle examplePrims st (DiarySave (js ''e1'') entry)))"
    by blast
  from c key ne d' have "diary_entries (st_db st') = diary_entries (st_db st) @
      [entry\<lparr>entry_id := js ''e1'',
             entry_title := fst (encryptText examplePrims (st_rnd st) (entry_title entry) (js ''secret'')),
             entry_content :=
               fst (encryptText examplePrims
                      (snd (encryptText examplePrims (st_rnd st) (entry_title entry) (js ''secret'')))
                      (entry_content entry) (js ''secret'')),
             entry_linkedItemId := orElse (entry_linkedItemId entry) None\<rparr>]"
    by blast
  then have 2: "diary_entries (st_db (handle examplePrims st (DiarySave (js ''e1'') entry)))
      = [exampleEntry (js ''e1'') (js ''2024-01-01'')
          (fst (encryptText examplePrims exampleEntropy (js ''Monday'') (js ''secret'')))
          (fst (encryptText examplePrims
                  (snd (encryptText examplePrims exampleEntropy (js ''Monday'') (js ''secret'')))
                  (js ''rain'') (js ''secret'')))]"
    using d' by (simp add: st_def exampleState_def entry_def exampleEntry_def orElse_def)
  from inv 1 2 show ?thesis unfolding st_def entry_def by simp
qed

section \<open>Properties of the migration\<close>

lemma migrate_noop:
  assumes "store ''media_items'' = None" "store ''file_items'' = None" "\<not> hasLinkedItemType store"
  shows "migrateToFilesTable store = (None, store)"
  using assms by (simp add: migrateToFilesTable_def onlyIf_def hasLinkedItemType_def Let_def)

text \<open>The tables that a statement leaves alone.\<close>

lemma createTable_frame:
  "createTable name schema store = Inr store' \<Longrightarrow> n \<noteq> name \<Longrightarrow> store' n = store n"
  by (auto simp: createTable_def split: if_splits)

lemma insertSelect_frame:
  "insertSelect target tc source sc store = Inr store' \<Longrightarrow> n \<noteq> target \<Longrightarrow> store' n = store n"
  by (auto simp: insertSelect_def Let_def split: option.splits if_splits)

lemma dropTable_frame:
  "dropTable name store = Inr store' \<Longrightarrow> n \<noteq> name \<Longrightarrow> store' n = store n"
  by (auto simp: dropTable_def split: if_splits)

lemma dropTable_gone: "dropTable name store = Inr store' \<Longrightarrow> store' name = None"
  by (auto simp: dropTable_def split: if_splits)

lemma renameTable_frame:
  "renameTable old new store = Inr store' \<Longrightarrow> n \<noteq> old \<Longrightarrow> n \<noteq> new \<Longrightarrow> store' n = store n"
  by (auto simp: renameTable_def split: option.splits if_splits)

lemma renameTable_new:
  "renameTable old new store = Inr store' \<Longrightarrow> store' new = store old"
  by (auto simp: renameTable_def split: option.splits if_splits)

lemma onlyIf_frame:
  assumes "onlyIf b statement store = Inr store'"
    and "\<And>s'. statement store = Inr s' \<Longrightarrow> s' n = store n"
  shows "store' n = store n"
  using assms by (auto simp: onlyIf_def split: if_splits)

text \<open>After the first five statements the two legacy tables are gone.\<close>

lemma legacy_gone:
  assumes "exec_all
      [onlyIf c (createTable ''files'' files_schema),
       onlyIf (store ''media_items'' \<noteq> None) (insertSelect ''files'' tc ''media_items'' sc1),
       onlyIf (store ''media_items'' \<noteq> None) (dropTable ''media_items''),
       onlyIf (store ''file_items'' \<noteq> None) (insertSelect ''files'' tc ''file_items'' sc2),
       onlyIf (store ''file_items'' \<noteq> None) (dropTable ''file_items'')] store = Inr store1"
  shows "store1 ''media_items'' = None \<and> store1 ''file_items'' = None
    \<and> store1 ''diary_entries'' = store ''diary_entries''
    \<and> store1 ''diary_entries_new'' = store ''diary_entries_new''"
proof -
  from assms obtain s1 s2 s3 s4 where
    1: "onlyIf c (createTable ''files'' files_schema) store = Inr s1" and
    2: "onlyIf (store ''media_items'' \<noteq> None) (insertSelect ''files'' tc ''media_items'' sc1) s1 = Inr s2" and
    3: "onlyIf (store ''media_items'' \<noteq> None) (dropTable ''media_items'') s2 = Inr s3" and
    4: "onlyIf (store ''file_items'' \<noteq> None) (insertSelect ''files'' tc ''file_items'' sc2) s3 = Inr s4" and
    5: "onlyIf (store ''file_items'' \<noteq> None) (dropTable ''file_items'') s4 = Inr store1"
    by (auto split: sum.splits)
  have f1: "s1 n = store n" if "n \<noteq> ''files''" for n
    using 1 that by (auto simp: onlyIf_def createTable_def split: if_splits)
  have f2: "s2 n = s1 n" if "n \<noteq> ''files''" for n
    using 2 that by (auto simp: onlyIf_def split: if_splits dest: insertSelect_frame)
  have f3: "s3 n = s2 n" if "n \<noteq> ''media_items''" for n
    using 3 that by (auto simp: onlyIf_def split: if_splits dest: dropTable_frame)
  have f4: "s4 n = s3 n" if "n \<noteq> ''files''" for n
    using 4 that by (auto simp: onlyIf_def split: if_splits dest: insertSelect_frame)
  have f5: "store1 n = s4 n" if "n \<noteq> ''file_items''" for n
    using 5 that by (auto simp: onlyIf_def split: if_splits dest: dropTable_frame)
  have m3: "s3 ''media_items'' = None"
    using 3 f1 [of "''media_items''"] f2 [of "''media_items''"]
    by (auto simp: onlyIf_def split: if_splits dest: dropTable_gone)
  have m: "store1 ''media_items'' = None"
    using m3 f4 [of "''media_items''"] f5 [of "''media_items''"] by simp
  have s4f: "s4 ''file_items'' = store ''file_items''"
    using f1 [of "''file_items''"] f2 [of "''file_items''"] f3 [of "''file_items''"]
      f4 [of "''file_items''"] by simp
  have f: "store1 ''file_items'' = None"
    using 5 s4f by (auto simp: onlyIf_def split: if_splits dest: dropTable_gone)
  have d: "store1 n = store n" if "n = ''diary_entries'' \<or> n = ''diary_entries_new''" for n
    using that f1 [of n] f2 [of n] f3 [of n] f4 [of n] f5 [of n] by auto
  from m f d show ?thesis by simp
qed

lemma rebuild_result:
  assumes "exec_all
      [createTable ''diary_entries_new'' diary_entries_schema,
       insertSelect ''diary_entries_new'' diary_columns ''diary_entries'' diary_columns,
       dropTable ''diary_entries'',
       renameTable ''diary_entries_new'' ''diary_entries''] store1 = Inr store'"
  shows "\<not> hasLinkedItemType store' \<and> store' ''media_items'' = store1 ''media_items''
    \<and> store' ''file_items'' = store1 ''file_items''"
proof -
  from assms obtain s1 s2 s3 where
    1: "createTable ''diary_entries_new'' diary_entries_schema store1 = Inr s1" and
    2: "insertSelect ''diary_entries_new'' diary_columns ''diary_entries'' diary_columns s1 = Inr s2" and
    3: "dropTable ''diary_entries'' s2 = Inr s3" and
    4: "renameTable ''diary_entries_new'' ''diary_entries'' s3 = Inr store'"
    by (auto split: sum.splits)
  have n1: "s1 ''diary_entries_new'' = Some diary_entries_schema"
    using 1 by (auto simp: createTable_def split: if_splits)
  obtain t where n2: "s2 ''diary_entries_new'' = Some t" "tbl_columns t = tbl_columns diary_entries_schema"
    using 2 n1 by (auto simp: insertSelect_def Let_def split: option.splits if_splits)
  have n3: "s3 ''diary_entries_new'' = Some t"
    using dropTable_frame [OF 3, of "''diary_entries_new''"] n2 by simp
  have "store' ''diary_entries'' = Some t"
    using renameTable_new [OF 4] n3 by simp
  then have a: "\<not> hasLinkedItemType store'"
    using n2(2) by (simp add: hasLinkedItemType_def diary_entries_schema_def)
  have b: "store' n = store1 n" if "n = ''media_items'' \<or> n = ''file_items''" for n
    using that createTable_frame [OF 1, of n] insertSelect_frame [OF 2, of n]
      dropTable_frame [OF 3, of n] renameTable_frame [OF 4, of n] by auto
  from a b show ?thesis by simp
qed

lemma migrate_settles:
  assumes "migrateToFilesTable store = (None, store')"
  shows "store' ''media_items'' = None \<and> store' ''file_items'' = None \<and> \<not> hasLinkedItemType store'"
proof -
  define first where "first = exec_all
      [onlyIf ((store ''media_items'' \<noteq> None \<or> store ''file_items'' \<noteq> None) \<and> \<not> store ''files'' \<noteq> None)
         (createTable ''files'' files_schema),
       onlyIf (store ''media_items'' \<noteq> None)
         (insertSelect ''files''
            [''id'', ''user_id'', ''name'', ''path'', ''type'', ''created_at'', ''metadata'']
            ''media_items''
            [''id'', ''user_id'', ''title'', ''path'', ''type'', ''created_at'', ''metadata'']),
       onlyIf (store ''media_items'' \<noteq> None) (dropTable ''media_items''),
       onlyIf (store ''file_items'' \<noteq> None)
         (insertSelect ''files''
            [''id'', ''user_id'', ''name'', ''path'', ''type'', ''created_at'', ''metadata'']
            ''file_items''
            [''id'', ''user_id'', ''name'', ''path'', ''type'', ''created_at'', ''metadata'']),
       onlyIf (store ''file_items'' \<noteq> None) (dropTable ''file_items'')] store"
  from assms obtain store1 where s1: "first = Inr store1"
    unfolding migrateToFilesTable_def Let_def first_def [symmetric]
    by (cases first) (auto split: prod.splits)
  note g = legacy_gone [OF s1 [unfolded first_def]]
  show ?thesis
  proof (cases "hasLinkedItemType store1")
    case False
    with assms s1 have "store' = store1"
      unfolding migrateToFilesTable_def Let_def first_def [symmetric] hasLinkedItemType_def [symmetric]
      by simp
    with g False show ?thesis by simp
  next
    case True
    define second where "second = exec_all
        [createTable ''diary_entries_new'' diary_entries_schema,
         insertSelect ''diary_entries_new'' diary_columns ''diary_entries'' diary_columns,
         dropTable ''diary_entries'',
         renameTable ''diary_entries_new'' ''diary_entries''] store1"
    from assms s1 True
    have "(case second of Inl (e, s) \<Rightarrow> (Some e, s) | Inr s \<Rightarrow> (None, s)) = (None, store')"
      unfolding migrateToFilesTable_def Let_def first_def [symmetric] hasLinkedItemType_def [symmetric]
        second_def
      by (simp del: exec_all.simps)
    then have "second = Inr store'"
      by (cases second) auto
    from rebuild_result [OF this [unfolded second_def]] g show ?thesis by simp
  qed
qed

lemma example_legacy_first: "fst (migrateToFilesTable exampleLegacyStore) = None"
  by (simp add: migrateToFilesTable_def exampleLegacyStore_def onlyIf_def createTable_def
      insertSelect_def dropTable_def renameTable_def files_schema_def diary_entries_schema_def
      diary_columns_def row_ok_def keys_ok_def file_types_def diary_types_def entry_modes_def Let_def)

text \<open>
  Claim C9. Running \<open>migrateToFilesTable\<close> on a migrated store (the table \<^verbatim>\<open>files\<close> there,
  the tables \<^verbatim>\<open>media_items\<close> and \<^verbatim>\<open>file_items\<close> not there, no column \<^verbatim>\<open>linked_item_type\<close> in
  \<^verbatim>\<open>diary_entries\<close>) catches no error and leaves the store as it was, and so does the whole
  of \<open>createTables\<close> when the tables \<^verbatim>\<open>users\<close> and \<^verbatim>\<open>diary_entries\<close> are there as well.
  Moreover a run that caught no error, on any store, leaves a store on which the next
  run catches no error and changes nothing.
\<close>

theorem migration_idempotent:
  "(migrated store \<longrightarrow> migrateToFilesTable store = (None, store))
   \<and> (migrated store \<and> store ''users'' \<noteq> None \<and> store ''diary_entries'' \<noteq> None
        \<longrightarrow> createTables store = (None, store))
   \<and> (fst (migrateToFilesTable store) = None
        \<longrightarrow> migrateToFilesTable (snd (migrateToFilesTable store))
              = (None, snd (migrateToFilesTable store)))"
proof (intro conjI impI)
  assume m: "migrated store"
  then show "migrateToFilesTable store = (None, store)"
    unfolding migrated_def by (intro migrate_noop) simp_all
next
  assume a: "migrated store \<and> store ''users'' \<noteq> None \<and> store ''diary_entries'' \<noteq> None"
  then have "createTables store = migrateToFilesTable store"
    by (simp add: createTables_def createTableIfNotExists_def migrated_def)
  also from a have "\<dots> = (None, store)"
    unfolding migrated_def by (intro migrate_noop) simp_all
  finally show "createTables store = (None, store)" .
next
  assume "fst (migrateToFilesTable store) = None"
  then have "migrateToFilesTable store = (None, snd (migrateToFilesTable store))"
    by (simp add: prod_eq_iff)
  from migrate_settles [OF this]
  show "migrateToFilesTable (snd (migrateToFilesTable store))
      = (None, snd (migrateToFilesTable store))"
    by (intro migrate_noop) simp_all
qed

theorem migration_idempotent_witness:
  "migrated exampleMigratedStore
   \<and> migrateToFilesTable exampleMigratedStore = (None, exampleMigratedStore)
   \<and> createTables exampleMigratedStore = (None, exampleMigratedStore)
   \<and> \<not> migrated exampleLegacyStore
   \<and> fst (migrateToFilesTable exampleLegacyStore) = None
   \<and> migrateToFilesTable (snd (migrateToFilesTable exampleLegacyStore))
       = (None, snd (migrateToFilesTable exampleLegacyStore))"
proof -
  have m: "migrated exampleMigratedStore"
    by (simp add: migrated_def hasLinkedItemType_def exampleMigratedStore_def diary_entries_schema_def)
  have t: "exampleMigratedStore ''users'' \<noteq> None \<and> exampleMigratedStore ''diary_entries'' \<noteq> None"
    by (simp add: exampleMigratedStore_def)
  have l: "\<not> migrated exampleLegacyStore"
    by (simp add: migrated_def exampleLegacyStore_def)
  from m t l example_legacy_first
    migration_idempotent [of exampleMigratedStore] migration_idempotent [of exampleLegacyStore]
  show ?thesis by blast
qed

end
